theory Spec2Isabelle
  imports Main "HOL-Library.Sublist"
begin

section \<open>Data model\<close>

text \<open>
  The handler of \<^verbatim>\<open>src/lambda/auth-handler.py\<close> turns one inbound event, the process
  environment and the answers of the object store into a response dictionary.

  Python strings are modelled as \<^typ>\<open>string\<close>, read as UTF-8 bytes: the characters of
  the two templates that lie beyond ASCII are written as the bytes they have in the
  source file. Python's unbounded integers are \<^typ>\<open>int\<close>. Dictionaries whose order
  matters (the response headers, the query parameters) are association lists with distinct
  keys; the environment is a map.
\<close>

text \<open>The response dictionary: keys \<^verbatim>\<open>statusCode\<close>, \<^verbatim>\<open>headers\<close>, \<^verbatim>\<open>body\<close>.\<close>

record response =
  statusCode :: int
  headers :: "(string \<times> string) list"
  body :: string

text \<open>
  The event, as the platform delivers it: \<^verbatim>\<open>queryStringParameters\<close> is absent or null
  (\<open>None\<close>) or a dictionary from strings to strings.
\<close>

record event =
  queryStringParameters :: "(string \<times> string) list option"

text \<open>
  \<^verbatim>\<open>e.response['Error']\<close> of a botocore \<^verbatim>\<open>ClientError\<close>: a dictionary that may hold
  \<^verbatim>\<open>Code\<close> and \<^verbatim>\<open>Message\<close>.
\<close>

datatype error_info = ErrorInfo (Code: "string option") (Message: "string option")

text \<open>
  The exceptions that occur. \<open>ClientError r s\<close> carries \<^verbatim>\<open>e.response.get('Error')\<close> and
  \<^verbatim>\<open>str(e)\<close>; the other constructors carry the message, \<open>KeyError\<close> the missing key.
  \<open>OtherException\<close> stands for every other subclass of \<^verbatim>\<open>Exception\<close>.
\<close>

datatype exn =
    ClientError "error_info option" string
  | KeyError string
  | ValueError string
  | OtherException string

fun str_exn :: "exn \<Rightarrow> string" where
  "str_exn (ClientError r s) = s"
| "str_exn (KeyError k) = [CHR 0x27] @ k @ [CHR 0x27]"
| "str_exn (ValueError m) = m"
| "str_exn (OtherException m) = m"

text \<open>
  What the handler does besides returning: the lines it prints and the calls it makes to
  the object store, in order.
\<close>

datatype effect =
    Print string
  | HeadObject string string
  | GeneratePresignedUrl string string int

text \<open>
  Everything the handler reads from outside: \<^verbatim>\<open>os.environ\<close>, the interpreter's
  \<^verbatim>\<open>int\<close> on a string, \<^verbatim>\<open>json.dumps\<close> on the event, and the outcome of each call to
  boto3 (\<open>Inl\<close> is the exception raised). Which strings \<^verbatim>\<open>int\<close> accepts depends on the
  interpreter (its table of decimal digits, its limit on the number of digits), so it is
  taken as it is, not modelled.
\<close>

record runtime =
  environ :: "string \<rightharpoonup> string"
  py_int :: "string \<Rightarrow> exn + int"
  json_dumps :: "event \<Rightarrow> string"
  boto3_client :: "exn + unit"
  head_object :: "string \<Rightarrow> string \<Rightarrow> exn + unit"
  generate_presigned_url :: "string \<Rightarrow> string \<Rightarrow> int \<Rightarrow> exn + string"

section \<open>Python built-ins used by the handler\<close>

text \<open>\<^verbatim>\<open>d.get(k, default)\<close>.\<close>

definition dict_get :: "('k \<rightharpoonup> 'v) \<Rightarrow> 'k \<Rightarrow> 'v \<Rightarrow> 'v" where
  "dict_get d k dflt = (case d k of None \<Rightarrow> dflt | Some v \<Rightarrow> v)"

text \<open>\<^verbatim>\<open>str(n)\<close> for an integer, which is what an f-string puts for \<^verbatim>\<open>{n}\<close>.\<close>

fun str_nat :: "nat \<Rightarrow> string" where
  "str_nat n = (if n < 10 then [''0123456789'' ! n] else str_nat (n div 10) @ [''0123456789'' ! (n mod 10)])"

declare str_nat.simps [simp del]

definition str_int :: "int \<Rightarrow> string" where
  "str_int i = (if i < 0 then ''-'' @ str_nat (nat (- i)) else str_nat (nat i))"

text \<open>\<^verbatim>\<open>s.split(sep)\<close> for a separator of one character: never empty.\<close>

fun split_py :: "char \<Rightarrow> string \<Rightarrow> string list" where
  "split_py sep [] = [[]]"
| "split_py sep (c # cs) =
     (if c = sep then [] # split_py sep cs
      else (case split_py sep cs of
              w # ws \<Rightarrow> (c # w) # ws
            | [] \<Rightarrow> [[c]]))"

section \<open>The two templates\<close>

text \<open>
  Each f-string is cut at its replacement fields. The pieces between the fields are the
  text of the source, one source line per list element (\<^verbatim>\<open>{{\<close> and \<^verbatim>\<open>}}\<close> of the f-string
  are the braces they stand for).
\<close>

definition download_page_1 :: string where
  \<open>download_page_1 = concat
    [''\<newline>'',
     ''    <!DOCTYPE html>\<newline>'',
     ''    <html lang="en">\<newline>'',
     ''    <head>\<newline>'',
     ''        <meta charset="UTF-8">\<newline>'',
     ''        <meta name="viewport" content="width=device-width, initial-scale=1.0">\<newline>'',
     ''        <title>Secure Download - '']\<close>

definition download_page_2 :: string where
  \<open>download_page_2 = concat
    [''</title>\<newline>'',
     ''        <meta http-equiv="refresh" content="3;url='']\<close>

definition download_page_3 :: string where
  \<open>download_page_3 = concat
    [''">\<newline>'',
     ''        <style>\<newline>'',
     ''            body { \<newline>'',
     ''                font-family: 'Segoe UI', Tahoma, Geneva, Verdana, sans-serif; \<newline>'',
     ''                text-align: center; \<newline>'',
     ''                margin: 0;\<newline>'',
     ''                padding: 20px;\<newline>'',
     ''                background: linear-gradient(135deg, #667eea 0%, #764ba2 100%);\<newline>'',
     ''                color: white;\<newline>'',
     ''                min-height: 100vh;\<newline>'',
     ''                display: flex;\<newline>'',
     ''                align-items: center;\<newline>'',
     ''                justify-content: center;\<newline>'',
     ''            }\<newline>'',
     ''            .container { \<newline>'',
     ''                max-width: 600px; \<newline>'',
     ''                background: rgba(255, 255, 255, 0.1);\<newline>'',
     ''                backdrop-filter: blur(10px);\<newline>'',
     ''                border-radius: 20px;\<newline>'',
     ''                padding: 40px;\<newline>'',
     ''                box-shadow: 0 8px 32px rgba(0, 0, 0, 0.1);\<newline>'',
     ''                border: 1px solid rgba(255, 255, 255, 0.2);\<newline>'',
     ''            }\<newline>'',
     ''            .success { \<newline>'',
     ''                color: #4CAF50; \<newline>'',
     ''                font-size: 4em;\<newline>'',
     ''                margin-bottom: 20px;\<newline>'',
     ''                animation: pulse 2s infinite;\<newline>'',
     ''            }\<newline>'',
     ''            @keyframes pulse {\<newline>'',
     ''                0% { transform: scale(1); }\<newline>'',
     ''                50% { transform: scale(1.1); }\<newline>'',
     ''                100% { transform: scale(1); }\<newline>'',
     ''            }\<newline>'',
     ''            h1 {\<newline>'',
     ''                margin: 20px 0;\<newline>'',
     ''                font-size: 2em;\<newline>'',
     ''                font-weight: 300;\<newline>'',
     ''            }\<newline>'',
     ''            .app-name {\<newline>'',
     ''                font-size: 0.8em;\<newline>'',
     ''                opacity: 0.8;\<newline>'',
     ''                margin-bottom: 30px;\<newline>'',
     ''            }\<newline>'',
     ''            p {\<newline>'',
     ''                font-size: 1.1em;\<newline>'',
     ''                line-height: 1.6;\<newline>'',
     ''                margin: 15px 0;\<newline>'',
     ''            }\<newline>'',
     ''            .download-link { \<newline>'',
     ''                display: inline-block; \<newline>'',
     ''                background: linear-gradient(45deg, #4CAF50, #45a049);\<newline>'',
     ''                color: white; \<newline>'',
     ''                padding: 15px 30px; \<newline>'',
     ''                text-decoration: none; \<newline>'',
     ''                border-radius: 50px; \<newline>'',
     ''                margin: 20px 0;\<newline>'',
     ''                font-weight: bold;\<newline>'',
     ''                font-size: 1.1em;\<newline>'',
     ''                transition: all 0.3s ease;\<newline>'',
     ''                box-shadow: 0 4px 15px rgba(76, 175, 80, 0.3);\<newline>'',
     ''            }\<newline>'',
     ''            .download-link:hover {\<newline>'',
     ''                transform: translateY(-2px);\<newline>'',
     ''                box-shadow: 0 6px 20px rgba(76, 175, 80, 0.4);\<newline>'',
     ''            }\<newline>'',
     ''            .spinner {\<newline>'',
     ''                border: 3px solid rgba(255, 255, 255, 0.3);\<newline>'',
     ''                border-radius: 50%;\<newline>'',
     ''                border-top: 3px solid white;\<newline>'',
     ''                width: 40px;\<newline>'',
     ''                height: 40px;\<newline>'',
     ''                animation: spin 1s linear infinite;\<newline>'',
     ''                margin: 20px auto;\<newline>'',
     ''            }\<newline>'',
     ''            @keyframes spin {\<newline>'',
     ''                0% { transform: rotate(0deg); }\<newline>'',
     ''                100% { transform: rotate(360deg); }\<newline>'',
     ''            }\<newline>'',
     ''            .info {\<newline>'',
     ''                background: rgba(255, 255, 255, 0.1);\<newline>'',
     ''                border-radius: 15px;\<newline>'',
     ''                padding: 20px;\<newline>'',
     ''                margin-top: 30px;\<newline>'',
     ''                font-size: 0.95em;\<newline>'',
     ''                border: 1px solid rgba(255, 255, 255, 0.2);\<newline>'',
     ''            }\<newline>'',
     ''            .file-info {\<newline>'',
     ''                background: rgba(255, 255, 255, 0.05);\<newline>'',
     ''                border-radius: 10px;\<newline>'',
     ''                padding: 15px;\<newline>'',
     ''                margin: 20px 0;\<newline>'',
     ''                font-family: monospace;\<newline>'',
     ''            }\<newline>'',
     ''            .countdown {\<newline>'',
     ''                font-size: 1.2em;\<newline>'',
     ''                font-weight: bold;\<newline>'',
     ''                color: #4CAF50;\<newline>'',
     ''            }\<newline>'',
     ''        </style>\<newline>'',
     ''        <script>\<newline>'',
     ''            let countdown = 3;\<newline>'',
     ''            function updateCountdown() {\<newline>'',
     ''                const element = document.getElementById('countdown');\<newline>'',
     ''                if (element) {\<newline>'',
     ''                    element.textContent = countdown;\<newline>'',
     ''                    countdown--;\<newline>'',
     ''                    if (countdown >= 0) {\<newline>'',
     ''                        setTimeout(updateCountdown, 1000);\<newline>'',
     ''                    }\<newline>'',
     ''                }\<newline>'',
     ''            }\<newline>'',
     ''            window.onload = updateCountdown;\<newline>'',
     ''        </script>\<newline>'',
     ''    </head>\<newline>'',
     ''    <body>\<newline>'',
     ''        <div class="container">\<newline>'',
     ''            <div class="success">'' @ [CHR 0xEF, CHR 0xA3, CHR 0xBF, CHR 0xC3, CHR 0xBC, CHR 0xC3, CHR 0xAE, CHR 0xC3, CHR 0xAA] @ ''</div>\<newline>'',
     ''            <div class="app-name">'']\<close>

definition download_page_4 :: string where
  \<open>download_page_4 = concat
    [''</div>\<newline>'',
     ''            <h1>Authentication Successful!</h1>\<newline>'',
     ''            <div class="spinner"></div>\<newline>'',
     ''            <p>Your secure download will start automatically in <span id="countdown" class="countdown">3</span> seconds...</p>\<newline>'',
     ''            \<newline>'',
     ''            <div class="file-info">\<newline>'',
     ''                <strong>'' @ [CHR 0xEF, CHR 0xA3, CHR 0xBF, CHR 0xC3, CHR 0xBC, CHR 0xC3, CHR 0xAC, CHR 0xC3, CHR 0x85] @ '' File:</strong> '']\<close>

definition download_page_5 :: string where
  \<open>download_page_5 = concat
    [''\<newline>'',
     ''            </div>\<newline>'',
     ''            \<newline>'',
     ''            <p>If the download doesn't start automatically, click the button below:</p>\<newline>'',
     ''            <a href="'']\<close>

definition download_page_6 :: string where
  \<open>download_page_6 = concat
    [''" class="download-link">'' @ [CHR 0xEF, CHR 0xA3, CHR 0xBF, CHR 0xC3, CHR 0xBC, CHR 0xC3, CHR 0xAC, CHR 0xE2, CHR 0x80, CHR 0xA2] @ '' Download Securely</a>\<newline>'',
     ''            \<newline>'',
     ''            <div class="info">\<newline>'',
     ''                <p><strong>'' @ [CHR 0xEF, CHR 0xA3, CHR 0xBF, CHR 0xC3, CHR 0xBC, CHR 0xC3, CHR 0xAE, CHR 0xC3, CHR 0xAD] @ '' Security Notice:</strong></p>\<newline>'',
     ''                <p>This download link will expire in <strong>'']\<close>

definition download_page_7 :: string where
  \<open>download_page_7 = concat
    ['' hour'']\<close>

definition download_page_8 :: string where
  \<open>download_page_8 = concat
    [''</strong> for your security.</p>\<newline>'',
     ''                <p>Please save the file to your device before the link expires.</p>\<newline>'',
     ''                <p>This link is unique to your session and cannot be shared.</p>\<newline>'',
     ''            </div>\<newline>'',
     ''        </div>\<newline>'',
     ''    </body>\<newline>'',
     ''    </html>\<newline>'',
     ''    '']\<close>

definition error_page_1 :: string where
  \<open>error_page_1 = concat
    [''\<newline>'',
     ''    <!DOCTYPE html>\<newline>'',
     ''    <html lang="en">\<newline>'',
     ''    <head>\<newline>'',
     ''        <meta charset="UTF-8">\<newline>'',
     ''        <meta name="viewport" content="width=device-width, initial-scale=1.0">\<newline>'',
     ''        <title>Download Error - '']\<close>

definition error_page_2 :: string where
  \<open>error_page_2 = concat
    [''</title>\<newline>'',
     ''        <style>\<newline>'',
     ''            body { \<newline>'',
     ''                font-family: 'Segoe UI', Tahoma, Geneva, Verdana, sans-serif; \<newline>'',
     ''                text-align: center; \<newline>'',
     ''                margin: 0;\<newline>'',
     ''                padding: 20px;\<newline>'',
     ''                background: linear-gradient(135deg, #ff6b6b 0%, #ee5a24 100%);\<newline>'',
     ''                color: white;\<newline>'',
     ''                min-height: 100vh;\<newline>'',
     ''                display: flex;\<newline>'',
     ''                align-items: center;\<newline>'',
     ''                justify-content: center;\<newline>'',
     ''            }\<newline>'',
     ''            .container { \<newline>'',
     ''                max-width: 600px; \<newline>'',
     ''                background: rgba(255, 255, 255, 0.1);\<newline>'',
     ''                backdrop-filter: blur(10px);\<newline>'',
     ''                border-radius: 20px;\<newline>'',
     ''                padding: 40px;\<newline>'',
     ''                box-shadow: 0 8px 32px rgba(0, 0, 0, 0.1);\<newline>'',
     ''                border: 1px solid rgba(255, 255, 255, 0.2);\<newline>'',
     ''            }\<newline>'',
     ''            .error { \<newline>'',
     ''                color: #ff4757; \<newline>'',
     ''                font-size: 4em;\<newline>'',
     ''                margin-bottom: 20px;\<newline>'',
     ''            }\<newline>'',
     ''            h1 {\<newline>'',
     ''                margin: 20px 0;\<newline>'',
     ''                font-size: 2em;\<newline>'',
     ''                font-weight: 300;\<newline>'',
     ''            }\<newline>'',
     ''            .app-name {\<newline>'',
     ''                font-size: 0.8em;\<newline>'',
     ''                opacity: 0.8;\<newline>'',
     ''                margin-bottom: 30px;\<newline>'',
     ''            }\<newline>'',
     ''            p {\<newline>'',
     ''                font-size: 1.1em;\<newline>'',
     ''                line-height: 1.6;\<newline>'',
     ''                margin: 15px 0;\<newline>'',
     ''            }\<newline>'',
     ''            .error-details {\<newline>'',
     ''                background: rgba(255, 255, 255, 0.1);\<newline>'',
     ''                border-radius: 15px;\<newline>'',
     ''                padding: 20px;\<newline>'',
     ''                margin: 20px 0;\<newline>'',
     ''                font-family: monospace;\<newline>'',
     ''                font-size: 0.9em;\<newline>'',
     ''                text-align: left;\<newline>'',
     ''                border: 1px solid rgba(255, 255, 255, 0.2);\<newline>'',
     ''                word-break: break-word;\<newline>'',
     ''            }\<newline>'',
     ''            .support-info {\<newline>'',
     ''                background: rgba(255, 255, 255, 0.1);\<newline>'',
     ''                border-radius: 15px;\<newline>'',
     ''                padding: 20px;\<newline>'',
     ''                margin-top: 30px;\<newline>'',
     ''                font-size: 0.95em;\<newline>'',
     ''                border: 1px solid rgba(255, 255, 255, 0.2);\<newline>'',
     ''            }\<newline>'',
     ''            .retry-button {\<newline>'',
     ''                display: inline-block;\<newline>'',
     ''                background: linear-gradient(45deg, #3498db, #2980b9);\<newline>'',
     ''                color: white;\<newline>'',
     ''                padding: 12px 25px;\<newline>'',
     ''                text-decoration: none;\<newline>'',
     ''                border-radius: 25px;\<newline>'',
     ''                margin: 15px 0;\<newline>'',
     ''                font-weight: bold;\<newline>'',
     ''                transition: all 0.3s ease;\<newline>'',
     ''            }\<newline>'',
     ''            .retry-button:hover {\<newline>'',
     ''                transform: translateY(-2px);\<newline>'',
     ''                box-shadow: 0 4px 15px rgba(52, 152, 219, 0.3);\<newline>'',
     ''            }\<newline>'',
     ''        </style>\<newline>'',
     ''    </head>\<newline>'',
     ''    <body>\<newline>'',
     ''        <div class="container">\<newline>'',
     ''            <div class="error">'' @ [CHR 0xE2, CHR 0x80, CHR 0x9A, CHR 0xC3, CHR 0xB6, CHR 0xE2, CHR 0x80, CHR 0xA0, CHR 0xC3, CHR 0x94, CHR 0xE2, CHR 0x88, CHR 0x8F, CHR 0xC3, CHR 0xA8] @ ''</div>\<newline>'',
     ''            <div class="app-name">'']\<close>

definition error_page_3 :: string where
  \<open>error_page_3 = concat
    [''</div>\<newline>'',
     ''            <h1>'']\<close>

definition error_page_4 :: string where
  \<open>error_page_4 = concat
    [''</h1>\<newline>'',
     ''            <p>We're sorry, but there was an error processing your secure download request.</p>\<newline>'',
     ''            \<newline>'',
     ''            <div class="error-details">\<newline>'',
     ''                <strong>Error Details:</strong><br>\<newline>'',
     ''                '']\<close>

definition error_page_5 :: string where
  \<open>error_page_5 = concat
    [''\<newline>'',
     ''            </div>\<newline>'',
     ''            \<newline>'',
     ''            <a href="javascript:window.location.reload();" class="retry-button">'' @ [CHR 0xEF, CHR 0xA3, CHR 0xBF, CHR 0xC3, CHR 0xBC, CHR 0xC3, CHR 0xAE, CHR 0xC3, CHR 0x91] @ '' Try Again</a>\<newline>'',
     ''            \<newline>'',
     ''            <div class="support-info">\<newline>'',
     ''                <p><strong>'' @ [CHR 0xEF, CHR 0xA3, CHR 0xBF, CHR 0xC3, CHR 0xBC, CHR 0xC3, CHR 0x9C, CHR 0xC3, CHR 0xB2] @ '' Need Help?</strong></p>\<newline>'',
     ''                <p>If this problem persists, please contact support with the error details above.</p>\<newline>'',
     ''                <p>You can also try:</p>\<newline>'',
     ''                <ul style="text-align: left; display: inline-block;">\<newline>'',
     ''                    <li>Refreshing the page</li>\<newline>'',
     ''                    <li>Signing in again</li>\<newline>'',
     ''                    <li>Clearing your browser cache</li>\<newline>'',
     ''                    <li>Trying a different browser</li>\<newline>'',
     ''                </ul>\<newline>'',
     ''            </div>\<newline>'',
     ''        </div>\<newline>'',
     ''    </body>\<newline>'',
     ''    </html>\<newline>'',
     ''    '']\<close>

section \<open>The page generators\<close>

text \<open>\<^verbatim>\<open>file_name = object_key.split('/')[-1]\<close>\<close>

definition file_name :: "string \<Rightarrow> string" where
  "file_name object_key = last (split_py (CHR ''/'') object_key)"

text \<open>\<^verbatim>\<open>expiry_hours = expiry_seconds // 3600\<close>: floor division, as \<open>div\<close> on \<^typ>\<open>int\<close>.\<close>

definition expiry_hours :: "int \<Rightarrow> int" where
  "expiry_hours expiry_seconds = expiry_seconds div 3600"

definition generate_download_page :: "string \<Rightarrow> int \<Rightarrow> string \<Rightarrow> string \<Rightarrow> string" where
  "generate_download_page download_url expiry_seconds app_name object_key =
     download_page_1 @ app_name @
     download_page_2 @ download_url @
     download_page_3 @ app_name @
     download_page_4 @ file_name object_key @
     download_page_5 @ download_url @
     download_page_6 @ str_int (expiry_hours expiry_seconds) @
     download_page_7 @ (if expiry_hours expiry_seconds \<noteq> 1 then ''s'' else '''') @
     download_page_8"

definition generate_error_page :: "string \<Rightarrow> string \<Rightarrow> string \<Rightarrow> string" where
  "generate_error_page error_title error_details app_name =
     error_page_1 @ app_name @
     error_page_2 @ app_name @
     error_page_3 @ error_title @
     error_page_4 @ error_details @
     error_page_5"

section \<open>The handler\<close>

text \<open>The configuration, lines 26 to 29 of the handler.\<close>

definition BUCKET_NAME :: "runtime \<Rightarrow> string" where
  "BUCKET_NAME rt = dict_get (environ rt) ''BUCKET_NAME'' ''secure-photo-downloads''"

definition OBJECT_KEY :: "runtime \<Rightarrow> string" where
  "OBJECT_KEY rt = dict_get (environ rt) ''OBJECT_KEY'' ''photos/photos.zip''"

definition DOWNLOAD_EXPIRY :: "runtime \<Rightarrow> exn + int" where
  "DOWNLOAD_EXPIRY rt = py_int rt (dict_get (environ rt) ''DOWNLOAD_EXPIRY'' ''3600'')"

definition APP_NAME :: "runtime \<Rightarrow> string" where
  "APP_NAME rt = dict_get (environ rt) ''APP_NAME'' ''Secure Photo Downloader''"

text \<open>
  Lines 33 to 42: the query parameters (\<^verbatim>\<open>event.get('queryStringParameters') or {}\<close>), the
  authorization code, and the line printed about it. An absent code and an empty one are
  both false for \<^verbatim>\<open>if auth_code\<close>; \<^verbatim>\<open>auth_code[:10]\<close> is \<open>take 10\<close>.
\<close>

definition query_params :: "event \<Rightarrow> (string \<times> string) list" where
  "query_params ev =
     (case queryStringParameters ev of
        None \<Rightarrow> []
      | Some q \<Rightarrow> if q = [] then [] else q)"

definition auth_code :: "event \<Rightarrow> string option" where
  "auth_code ev = map_of (query_params ev) ''code''"

definition log_code :: "event \<Rightarrow> effect" where
  "log_code ev =
     (case auth_code ev of
        None \<Rightarrow> Print ''No authorization code - might be direct access''
      | Some c \<Rightarrow>
          if c \<noteq> [] then Print (''Authorization code received: '' @ take 10 c @ ''...'')
          else Print ''No authorization code - might be direct access'')"

text \<open>
  The body of the outer \<^verbatim>\<open>try\<close> (lines 32 to 85): the effects so far, and either the
  exception that leaves the block or the response returned from inside it.
\<close>

definition try_body :: "runtime \<Rightarrow> event \<Rightarrow> int \<Rightarrow> effect list \<times> (exn + response)" where
  "try_body rt ev expiry =
     (case boto3_client rt of
        Inl e \<Rightarrow> ([log_code ev], Inl e)
      | Inr s3_client \<Rightarrow>
         (case head_object rt (BUCKET_NAME rt) (OBJECT_KEY rt) of
            Inl (ClientError r s) \<Rightarrow>
              (case r of
                 None \<Rightarrow> ([log_code ev, HeadObject (BUCKET_NAME rt) (OBJECT_KEY rt)], Inl (KeyError ''Error''))
               | Some err \<Rightarrow>
                  (case Code err of
                     None \<Rightarrow> ([log_code ev, HeadObject (BUCKET_NAME rt) (OBJECT_KEY rt)], Inl (KeyError ''Code''))
                   | Some c \<Rightarrow>
                       if c = ''404'' then
                         ([log_code ev, HeadObject (BUCKET_NAME rt) (OBJECT_KEY rt),
                           Print (''Object '' @ OBJECT_KEY rt @ '' not found in bucket '' @ BUCKET_NAME rt)],
                          Inr \<lparr>statusCode = 404,
                               headers = [(''Content-Type'', ''text/html'')],
                               body = generate_error_page
                                        ''File Not Found''
                                        (''The requested file '' @ [CHR 0x27] @ OBJECT_KEY rt @ [CHR 0x27] @
                                         '' was not found. Please contact support.'')
                                        (APP_NAME rt)\<rparr>)
                       else ([log_code ev, HeadObject (BUCKET_NAME rt) (OBJECT_KEY rt)], Inl (ClientError r s))))
          | Inl e \<Rightarrow> ([log_code ev, HeadObject (BUCKET_NAME rt) (OBJECT_KEY rt)], Inl e)
          | Inr u \<Rightarrow>
             (case generate_presigned_url rt (BUCKET_NAME rt) (OBJECT_KEY rt) expiry of
                Inl e \<Rightarrow>
                  ([log_code ev, HeadObject (BUCKET_NAME rt) (OBJECT_KEY rt),
                    Print (''Object '' @ OBJECT_KEY rt @ '' exists in bucket '' @ BUCKET_NAME rt),
                    GeneratePresignedUrl (BUCKET_NAME rt) (OBJECT_KEY rt) expiry], Inl e)
              | Inr presigned_url \<Rightarrow>
                  ([log_code ev, HeadObject (BUCKET_NAME rt) (OBJECT_KEY rt),
                    Print (''Object '' @ OBJECT_KEY rt @ '' exists in bucket '' @ BUCKET_NAME rt),
                    GeneratePresignedUrl (BUCKET_NAME rt) (OBJECT_KEY rt) expiry,
                    Print (''Generated pre-signed URL: '' @ take 50 presigned_url @ ''...'')],
                   Inr \<lparr>statusCode = 200,
                        headers = [(''Content-Type'', ''text/html''),
                                   (''Cache-Control'', ''no-cache, no-store, must-revalidate''),
                                   (''Pragma'', ''no-cache''),
                                   (''Expires'', ''0'')],
                        body = generate_download_page presigned_url expiry (APP_NAME rt) (OBJECT_KEY rt)\<rparr>))))"

text \<open>
  The two \<^verbatim>\<open>except\<close> clauses of the outer \<^verbatim>\<open>try\<close> (lines 87 to 103), applied to the
  exception that left its body.
\<close>

definition except_clauses :: "runtime \<Rightarrow> exn \<Rightarrow> effect list \<times> response" where
  "except_clauses rt e =
     (case e of
        ClientError r s \<Rightarrow>
          (let error_code = (case r of None \<Rightarrow> ''Unknown''
                             | Some err \<Rightarrow> (case Code err of None \<Rightarrow> ''Unknown'' | Some c \<Rightarrow> c));
               error_message = (case r of None \<Rightarrow> s
                                | Some err \<Rightarrow> (case Message err of None \<Rightarrow> s | Some m \<Rightarrow> m))
           in ([Print (''AWS Error: '' @ s)],
               \<lparr>statusCode = 500,
                headers = [(''Content-Type'', ''text/html'')],
                body = generate_error_page (''AWS Error: '' @ error_code) error_message (APP_NAME rt)\<rparr>))
      | _ \<Rightarrow>
          ([Print (''General Error: '' @ str_exn e)],
           \<lparr>statusCode = 500,
            headers = [(''Content-Type'', ''text/html'')],
            body = generate_error_page ''System Error'' (str_exn e) (APP_NAME rt)\<rparr>))"

text \<open>
  The handler: the printed event, the configuration (outside the \<^verbatim>\<open>try\<close>: an exception
  of \<^verbatim>\<open>int\<close> leaves the handler), then the \<^verbatim>\<open>try\<close> with its \<^verbatim>\<open>except\<close> clauses.
  \<open>Inl\<close> is an exception that reaches the caller.
\<close>

definition lambda_handler :: "runtime \<Rightarrow> event \<Rightarrow> effect list \<times> (exn + response)" where
  "lambda_handler rt ev =
     (case DOWNLOAD_EXPIRY rt of
        Inl e \<Rightarrow> ([Print (''Event received: '' @ json_dumps rt ev)], Inl e)
      | Inr expiry \<Rightarrow>
          (case try_body rt ev expiry of
             (effs, Inr resp) \<Rightarrow> (Print (''Event received: '' @ json_dumps rt ev) # effs, Inr resp)
           | (effs, Inl e) \<Rightarrow>
               (Print (''Event received: '' @ json_dumps rt ev) # effs @ fst (except_clauses rt e),
                Inr (snd (except_clauses rt e)))))"

section \<open>Occurrences of one string in another\<close>

text \<open>
  \<open>sublist p s\<close> of the library says that \<open>p\<close> occurs in \<open>s\<close>;
  \<open>occurrences p s\<close> counts the positions of \<open>s\<close> at which \<open>p\<close> starts.
\<close>

fun occurrences :: "'a list \<Rightarrow> 'a list \<Rightarrow> nat" where
  "occurrences p [] = (if p = [] then 1 else 0)"
| "occurrences p (x # xs) = (if prefix p (x # xs) then 1 else 0) + occurrences p xs"

section \<open>Store calls among the effects\<close>

text \<open>The calls to the object store among the effects, without the printed lines.\<close>

fun is_store_call :: "effect \<Rightarrow> bool" where
  "is_store_call (Print line) = False"
| "is_store_call (HeadObject bucket key) = True"
| "is_store_call (GeneratePresignedUrl bucket key ttl) = True"

definition store_calls :: "effect list \<Rightarrow> effect list" where
  "store_calls effs = filter is_store_call effs"

section \<open>Example inputs\<close>

text \<open>
  The configuration of the specification's end-to-end examples (bucket \<^verbatim>\<open>b\<close>, key
  \<^verbatim>\<open>photos/x.zip\<close>, application \<^verbatim>\<open>App\<close>), with the text of \<^verbatim>\<open>DOWNLOAD_EXPIRY\<close>, the
  outcome of the probe and the outcome of signing left open.
\<close>

text \<open>
  What \<^verbatim>\<open>int\<close> answers on the texts that the examples give to \<^verbatim>\<open>DOWNLOAD_EXPIRY\<close>:
  \<^verbatim>\<open>3600\<close>, \<^verbatim>\<open>7200\<close>, \<^verbatim>\<open>0\<close> and \<^verbatim>\<open>-1\<close> are read as numbers, \<^verbatim>\<open>abc\<close> raises
  \<^verbatim>\<open>ValueError\<close>. The examples use no other text; on those this table says nothing about
  the interpreter.
\<close>

definition example_int :: "string \<Rightarrow> exn + int" where
  "example_int s =
     (case map_of [(''3600'', 3600), (''7200'', 7200), (''0'', 0), (''-1'', - 1)] s of
        Some n \<Rightarrow> Inr n
      | None \<Rightarrow>
          Inl (ValueError (''invalid literal for int() with base 10: '' @ [CHR 0x27] @ s @
                           [CHR 0x27])))"

definition example_runtime :: "string \<Rightarrow> exn + unit \<Rightarrow> exn + string \<Rightarrow> runtime" where
  "example_runtime expiry probe sign =
     \<lparr>environ = [''BUCKET_NAME'' \<mapsto> ''b'', ''OBJECT_KEY'' \<mapsto> ''photos/x.zip'',
                 ''DOWNLOAD_EXPIRY'' \<mapsto> expiry, ''APP_NAME'' \<mapsto> ''App''],
      py_int = example_int,
      json_dumps = (\<lambda>ev. ''{}''),
      boto3_client = Inr (),
      head_object = (\<lambda>bucket key. probe),
      generate_presigned_url = (\<lambda>bucket key ttl. sign)\<rparr>"

definition example_event :: event where
  "example_event = \<lparr>queryStringParameters = Some [(''code'', ''abc123'')]\<rparr>"

definition no_code_event :: event where
  "no_code_event = \<lparr>queryStringParameters = None\<rparr>"

text \<open>A \<^verbatim>\<open>ClientError\<close> with the given code and message.\<close>

definition client_error :: "string \<Rightarrow> string \<Rightarrow> exn" where
  "client_error c m =
     ClientError (Some (ErrorInfo (Some c) (Some m)))
       (''An error occurred ('' @ c @ ''): '' @ m)"

text \<open>The scenarios of the examples: the probe and the signing as named.\<close>

definition example_success :: runtime where
  "example_success = example_runtime ''3600'' (Inr ()) (Inr ''https://signed/url'')"

definition example_missing :: runtime where
  "example_missing =
     example_runtime ''3600'' (Inl (client_error ''404'' ''Not Found'')) (Inr ''https://signed/url'')"

definition example_denied :: runtime where
  "example_denied =
     example_runtime ''3600'' (Inl (client_error ''AccessDenied'' ''denied'')) (Inr ''https://signed/url'')"

definition example_no_such_key :: runtime where
  "example_no_such_key =
     example_runtime ''3600'' (Inl (client_error ''NoSuchKey'' ''The specified key does not exist.''))
       (Inr ''https://signed/url'')"

definition example_bad_expiry :: runtime where
  "example_bad_expiry = example_runtime ''abc'' (Inr ()) (Inr ''https://signed/url'')"

definition example_zero_expiry :: runtime where
  "example_zero_expiry = example_runtime ''0'' (Inr ()) (Inr ''https://signed/url'')"

definition example_negative_expiry :: runtime where
  "example_negative_expiry = example_runtime ''-1'' (Inr ()) (Inr ''https://signed/url'')"

text \<open>
  The success scenario with an application name that is itself a redirect directive to
  the signed URL.
\<close>

definition example_injected :: runtime where
  \<open>example_injected =
     example_success
       \<lparr>environ := (environ example_success)
          (''APP_NAME'' \<mapsto> ''<meta http-equiv="refresh" content="3;url=https://signed/url">'')\<rparr>\<close>

section \<open>Lemmas on lists\<close>

lemma sublist_bridge:
  assumes "suffix p a" and "prefix q b"
  shows "sublist (p @ m @ q) (x @ a @ m @ b @ y)"
proof -
  from assms(1) obtain a' where a: "a = a' @ p" by (auto simp: suffix_def)
  from assms(2) obtain b' where b: "b = q @ b'" by (auto simp: prefix_def)
  have "x @ a @ m @ b @ y = (x @ a') @ (p @ m @ q) @ (b' @ y)"
    by (simp add: a b)
  then show ?thesis
    unfolding sublist_def by blast
qed

lemma occurrences_skip:
  "c \<notin> set t \<Longrightarrow> occurrences (c # p) (t @ r) = occurrences (c # p) r"
  by (induction t) auto

lemma occurrences_prefix_le:
  "prefix m d \<Longrightarrow> occurrences d s \<le> occurrences m s"
proof (induction s)
  case Nil
  then show ?case by auto
next
  case (Cons x xs)
  have "prefix d (x # xs) \<Longrightarrow> prefix m (x # xs)"
    using Cons.prems prefix_order.trans by blast
  with Cons show ?case by auto
qed

lemma occurrences_at_start: "prefix d s \<Longrightarrow> 1 \<le> occurrences d s"
  by (cases s) auto

lemma occurrences_append_ge: "occurrences d s \<le> occurrences d (a @ s)"
  by (induction a) auto

lemma occurrences_sublist: "sublist d s \<Longrightarrow> 1 \<le> occurrences d s"
proof -
  assume "sublist d s"
  then obtain a b where s: "s = a @ d @ b" by (auto simp: sublist_def)
  have "1 \<le> occurrences d (d @ b)"
    by (rule occurrences_at_start) simp
  also have "\<dots> \<le> occurrences d (a @ d @ b)"
    by (rule occurrences_append_ge)
  finally show ?thesis by (simp add: s)
qed

lemma occurrences_after:
  assumes "p \<noteq> []"
  shows "1 + occurrences p r \<le> occurrences p (a @ p @ r)"
proof -
  from assms obtain x p' where p: "p = x # p'"
    by (cases p) auto
  have "occurrences p r \<le> occurrences p (p' @ r)"
    by (rule occurrences_append_ge)
  then have "1 + occurrences p r \<le> occurrences p (p @ r)"
    by (simp add: p)
  also have "\<dots> \<le> occurrences p (a @ p @ r)"
    by (rule occurrences_append_ge)
  finally show ?thesis .
qed

lemma occurrences_three:
  assumes "p \<noteq> []"
  shows "3 \<le> occurrences p (a @ p @ b @ p @ c @ p @ d)"
proof -
  have "1 + occurrences p d \<le> occurrences p (c @ p @ d)"
    using assms by (rule occurrences_after)
  moreover have "1 + occurrences p (c @ p @ d) \<le> occurrences p (b @ p @ c @ p @ d)"
    using assms by (rule occurrences_after)
  moreover
  have "1 + occurrences p (b @ p @ c @ p @ d) \<le> occurrences p (a @ p @ b @ p @ c @ p @ d)"
    using assms by (rule occurrences_after)
  ultimately show ?thesis by simp
qed

section \<open>Facts about the built-ins\<close>

lemma split_py_not_Nil: "split_py sep s \<noteq> []"
  by (induction s) (auto split: list.splits)

lemma split_py_no_sep: "sep \<notin> set s \<Longrightarrow> split_py sep s = [s]"
  by (induction s) auto

lemma last_split_py_no_sep: "sep \<notin> set (last (split_py sep s))"
  by (induction s) (auto split: list.splits simp: split_py_not_Nil)

lemma split_py_two:
  "sep \<in> set s \<Longrightarrow> \<exists>w v ws. split_py sep s = w # v # ws"
proof (induction s)
  case Nil
  then show ?case by simp
next
  case (Cons c cs)
  show ?case
  proof (cases "c = sep")
    case True
    then show ?thesis
      using split_py_not_Nil [of sep cs] by (cases "split_py sep cs") auto
  next
    case False
    with Cons.prems have "sep \<in> set cs" by simp
    with Cons.IH obtain w v ws where "split_py sep cs = w # v # ws" by blast
    with False show ?thesis by simp
  qed
qed

lemma last_split_py_suffix:
  "sep \<in> set s \<Longrightarrow> \<exists>pre. s = pre @ sep # last (split_py sep s)"
proof (induction s)
  case Nil
  then show ?case by simp
next
  case (Cons c cs)
  show ?case
  proof (cases "sep \<in> set cs")
    case True
    with Cons.IH obtain pre where "cs = pre @ sep # last (split_py sep cs)" by blast
    then have "c # cs = (c # pre) @ sep # last (split_py sep cs)" by simp
    moreover have "last (split_py sep (c # cs)) = last (split_py sep cs)"
    proof -
      from True obtain w v ws where "split_py sep cs = w # v # ws"
        using split_py_two by blast
      then show ?thesis by simp
    qed
    ultimately show ?thesis by metis
  next
    case False
    with Cons.prems have c: "c = sep" by simp
    from False have "last (split_py sep (c # cs)) = cs"
      by (simp add: c split_py_no_sep)
    then have "c # cs = [] @ sep # last (split_py sep (c # cs))"
      by (simp add: c)
    then show ?thesis by blast
  qed
qed

lemma str_nat_digits: "c \<in> set (str_nat n) \<Longrightarrow> c \<in> set ''0123456789''"
proof (induction n rule: str_nat.induct)
  case (1 n)
  show ?case
  proof (cases "n < 10")
    case True
    with "1.prems" have "c = ''0123456789'' ! n"
      by (simp add: str_nat.simps [of n])
    moreover from True have "n < length ''0123456789''" by simp
    ultimately show ?thesis by (metis nth_mem)
  next
    case False
    with "1.prems" have "c \<in> set (str_nat (n div 10)) \<or> c = ''0123456789'' ! (n mod 10)"
      by (auto simp: str_nat.simps [of n])
    moreover have "n mod 10 < length ''0123456789''" by simp
    ultimately show ?thesis using "1.IH" False by (metis nth_mem)
  qed
qed

lemma str_int_no_lt: "CHR ''<'' \<notin> set (str_int i)"
proof
  assume "CHR ''<'' \<in> set (str_int i)"
  then have "CHR ''<'' \<in> set ''0123456789''"
    by (auto simp: str_int_def dest: str_nat_digits split: if_splits)
  then show False by simp
qed

section \<open>Facts about the templates\<close>

lemma download_page_2_suffix:
  \<open>suffix ''<meta http-equiv="refresh" content="3;url='' download_page_2\<close>
  by (simp add: download_page_2_def suffix_to_prefix)

lemma download_page_3_prefix: \<open>prefix ''">'' download_page_3\<close>
  by (simp add: download_page_3_def)

lemma download_page_4_suffix: \<open>suffix '' File:</strong> '' download_page_4\<close>
  by (simp add: download_page_4_def suffix_to_prefix)

lemma download_page_5_prefix: \<open>prefix ''\<newline>'' download_page_5\<close>
  by (simp add: download_page_5_def)

lemma download_page_5_suffix: \<open>suffix ''<a href="'' download_page_5\<close>
  by (simp add: download_page_5_def suffix_to_prefix)

lemma download_page_6_prefix: \<open>prefix ''" class="download-link">'' download_page_6\<close>
  by (simp add: download_page_6_def)

lemma download_page_6_suffix: \<open>suffix ''<strong>'' download_page_6\<close>
  by (simp add: download_page_6_def suffix_to_prefix)

lemma download_page_7_eq: \<open>download_page_7 = '' hour''\<close>
  by (simp add: download_page_7_def)

lemma download_page_8_prefix: \<open>prefix ''</strong>'' download_page_8\<close>
  by (simp add: download_page_8_def)

lemma error_page_3_suffix: \<open>suffix ''<h1>'' error_page_3\<close>
  by (simp add: error_page_3_def suffix_to_prefix)

lemma error_page_4_prefix: \<open>prefix ''</h1>'' error_page_4\<close>
  by (simp add: error_page_4_def)

text \<open>
  How many times a string without a line break occurs in a text made of lines is found
  line by line.
\<close>

lemma prefix_before_foreign:
  "x \<notin> set p \<Longrightarrow> prefix p (l @ x # r) = prefix p l"
  by (auto simp: prefix_append prefix_Cons)

lemma occurrences_line:
  assumes "x \<notin> set p" and "p \<noteq> []"
  shows "occurrences p (l @ x # r) = occurrences p l + occurrences p r"
proof (induction l)
  case Nil
  from assms have "\<not> prefix p (x # r)"
    by (cases p) auto
  with assms show ?case by simp
next
  case (Cons a l)
  have "prefix p (a # l @ x # r) = prefix p (a # l)"
    using prefix_before_foreign [OF assms(1), of "a # l" r] by simp
  with Cons show ?case by simp
qed

lemma occurrences_lines:
  assumes "x \<notin> set p" and "p \<noteq> []"
    and "\<forall>l \<in> set ls. l \<noteq> [] \<and> last l = x"
  shows "occurrences p (concat ls @ r) = sum_list (map (occurrences p) ls) + occurrences p r"
  using assms(3)
proof (induction ls)
  case Nil
  then show ?case by simp
next
  case (Cons l ls)
  then have "l \<noteq> []" and "last l = x" by simp_all
  then have l: "l = butlast l @ [x]"
    by (metis append_butlast_last_id)
  have "occurrences p (l @ concat ls @ r) =
        occurrences p (butlast l) + occurrences p (concat ls @ r)"
    using occurrences_line [OF assms(1,2), of "butlast l" "concat ls @ r"] l
    by (metis append_Cons append_Nil append_assoc)
  moreover have "occurrences p l = occurrences p (butlast l)"
    using occurrences_line [OF assms(1,2), of "butlast l" "[]"] l assms(2)
    by (metis add.right_neutral occurrences.simps(1))
  ultimately show ?case using Cons by simp
qed

lemma occurrences_part:
  assumes "x \<notin> set p" and "p \<noteq> []"
    and "ls \<noteq> []"
    and "\<forall>l \<in> set (butlast ls). l \<noteq> [] \<and> last l = x"
  shows "occurrences p (concat ls @ r) =
         sum_list (map (occurrences p) (butlast ls)) + occurrences p (last ls @ r)"
proof -
  from assms(3) have "concat ls @ r = concat (butlast ls) @ (last ls @ r)"
    by (metis append_butlast_last_id concat_append concat.simps append_Nil2 append_assoc)
  then show ?thesis
    using occurrences_lines [OF assms(1,2,4), of "last ls @ r"] by simp
qed

lemma occurrences_download_page_1:
  \<open>occurrences ''<meta http-equiv="refresh"'' (download_page_1 @ r) =
     occurrences ''<meta http-equiv="refresh"'' r\<close>
  unfolding download_page_1_def
  by (subst occurrences_part [where x = "CHR 0x0A"])
     (simp_all only: butlast.simps last.simps list.simps ball_simps insert_iff empty_iff
        char.inject simp_thms if_False if_True sum_list.Cons sum_list.Nil
        occurrences.simps Cons_prefix_Cons append.simps add_0 add_0_right de_Morgan_disj)

lemma occurrences_download_page_2:
  \<open>occurrences ''<meta http-equiv="refresh"'' (download_page_2 @ r) =
     1 + occurrences ''<meta http-equiv="refresh"'' r\<close>
  unfolding download_page_2_def
  by (subst occurrences_part [where x = "CHR 0x0A"])
     (simp_all only: butlast.simps last.simps list.simps ball_simps insert_iff empty_iff
        char.inject simp_thms if_False if_True sum_list.Cons sum_list.Nil
        occurrences.simps Cons_prefix_Cons Nil_prefix append.simps add_0 add_0_right
        de_Morgan_disj)

lemma occurrences_download_page_3:
  \<open>occurrences ''<meta http-equiv="refresh"'' (download_page_3 @ r) =
     occurrences ''<meta http-equiv="refresh"'' r\<close>
  unfolding download_page_3_def
  by (subst occurrences_part [where x = "CHR 0x0A"])
     (simp_all only: butlast.simps last.simps list.simps ball_simps insert_iff empty_iff
        char.inject simp_thms if_False if_True sum_list.Cons sum_list.Nil
        occurrences.simps Cons_prefix_Cons append.simps add_0 add_0_right de_Morgan_disj)

lemma occurrences_download_page_4:
  \<open>occurrences ''<meta http-equiv="refresh"'' (download_page_4 @ r) =
     occurrences ''<meta http-equiv="refresh"'' r\<close>
  unfolding download_page_4_def
  by (subst occurrences_part [where x = "CHR 0x0A"])
     (simp_all only: butlast.simps last.simps list.simps ball_simps insert_iff empty_iff
        char.inject simp_thms if_False if_True sum_list.Cons sum_list.Nil
        occurrences.simps Cons_prefix_Cons append.simps add_0 add_0_right de_Morgan_disj)

lemma occurrences_download_page_5:
  \<open>occurrences ''<meta http-equiv="refresh"'' (download_page_5 @ r) =
     occurrences ''<meta http-equiv="refresh"'' r\<close>
  unfolding download_page_5_def
  by (subst occurrences_part [where x = "CHR 0x0A"])
     (simp_all only: butlast.simps last.simps list.simps ball_simps insert_iff empty_iff
        char.inject simp_thms if_False if_True sum_list.Cons sum_list.Nil
        occurrences.simps Cons_prefix_Cons append.simps add_0 add_0_right de_Morgan_disj)

lemma occurrences_download_page_6:
  \<open>occurrences ''<meta http-equiv="refresh"'' (download_page_6 @ r) =
     occurrences ''<meta http-equiv="refresh"'' r\<close>
  unfolding download_page_6_def
  by (subst occurrences_part [where x = "CHR 0x0A"])
     (simp_all only: butlast.simps last.simps list.simps ball_simps insert_iff empty_iff
        char.inject simp_thms if_False if_True sum_list.Cons sum_list.Nil
        occurrences.simps Cons_prefix_Cons append.simps add_0 add_0_right de_Morgan_disj)

lemma occurrences_download_page_7:
  \<open>occurrences ''<meta http-equiv="refresh"'' (download_page_7 @ r) =
     occurrences ''<meta http-equiv="refresh"'' r\<close>
  by (simp add: download_page_7_def)

lemma occurrences_download_page_8:
  \<open>occurrences ''<meta http-equiv="refresh"'' (download_page_8 @ []) = 0\<close>
  unfolding download_page_8_def
  by (subst occurrences_part [where x = "CHR 0x0A"])
     (simp_all only: butlast.simps last.simps list.simps ball_simps insert_iff empty_iff
        char.inject simp_thms if_False if_True sum_list.Cons sum_list.Nil
        occurrences.simps Cons_prefix_Cons append.simps add_0 add_0_right de_Morgan_disj)

lemma occurrences_plural:
  \<open>occurrences ''<meta http-equiv="refresh"'' ((if b then ''s'' else '''') @ r) =
     occurrences ''<meta http-equiv="refresh"'' r\<close>
  by simp

lemma occurrences_directive_text:
  \<open>occurrences ''<meta http-equiv="refresh"''
      (''<meta http-equiv="refresh" content="3;url=https://signed/url">'' @ r) =
     1 + occurrences ''<meta http-equiv="refresh"'' r\<close>
  by (simp only: list.simps char.inject simp_thms if_False if_True
        occurrences.simps Cons_prefix_Cons Nil_prefix append.simps add_0 add_0_right)

text \<open>
  When no replacement field holds a \<^verbatim>\<open><\<close>, the page has the opening of the redirect
  directive at exactly one place.
\<close>

lemma download_page_one_directive:
  assumes "CHR ''<'' \<notin> set download_url" and "CHR ''<'' \<notin> set app_name"
    and "CHR ''<'' \<notin> set (file_name object_key)"
  shows \<open>occurrences ''<meta http-equiv="refresh"''
           (generate_download_page download_url expiry_seconds app_name object_key) = 1\<close>
proof -
  have skip: "\<And>t r. CHR ''<'' \<notin> set t \<Longrightarrow>
      occurrences (CHR ''<'' # ''meta http-equiv=\"refresh\"'') (t @ r) =
      occurrences (CHR ''<'' # ''meta http-equiv=\"refresh\"'') r"
    by (rule occurrences_skip)
  have "generate_download_page download_url expiry_seconds app_name object_key =
        download_page_1 @ app_name @ download_page_2 @ download_url @
        download_page_3 @ app_name @ download_page_4 @ file_name object_key @
        download_page_5 @ download_url @ download_page_6 @
        str_int (expiry_hours expiry_seconds) @ download_page_7 @
        (if expiry_hours expiry_seconds \<noteq> 1 then ''s'' else '''') @ download_page_8 @ []"
    by (simp add: generate_download_page_def)
  then show ?thesis
    by (simp only: occurrences_download_page_1 occurrences_download_page_2
          occurrences_download_page_3 occurrences_download_page_4
          occurrences_download_page_5 occurrences_download_page_6
          occurrences_download_page_7 occurrences_download_page_8 occurrences_plural
          skip [OF assms(1)] skip [OF assms(2)] skip [OF assms(3)]
          skip [OF str_int_no_lt] add_0_right)
qed

section \<open>Facts about the page generators\<close>

lemma file_name_subset: "set (file_name object_key) \<subseteq> set object_key"
proof (cases "CHR ''/'' \<in> set object_key")
  case True
  then obtain pre where "object_key = pre @ CHR ''/'' # file_name object_key"
    unfolding file_name_def using last_split_py_suffix by blast
  then have "set object_key = set (pre @ CHR ''/'' # file_name object_key)"
    by simp
  then show ?thesis by auto
next
  case False
  then show ?thesis by (simp add: file_name_def split_py_no_sep)
qed

lemma download_page_directive:
  \<open>sublist (''<meta http-equiv="refresh" content="3;url='' @ download_url @ ''">'')
     (generate_download_page download_url expiry_seconds app_name object_key)\<close>
proof -
  have "generate_download_page download_url expiry_seconds app_name object_key =
        (download_page_1 @ app_name) @ download_page_2 @ download_url @ download_page_3 @
        (app_name @ download_page_4 @ file_name object_key @
         download_page_5 @ download_url @ download_page_6 @
         str_int (expiry_hours expiry_seconds) @ download_page_7 @
         (if expiry_hours expiry_seconds \<noteq> 1 then ''s'' else '''') @ download_page_8)"
    by (simp add: generate_download_page_def)
  then show ?thesis
    by (simp only: sublist_bridge [OF download_page_2_suffix download_page_3_prefix])
qed

lemma download_page_link:
  \<open>sublist (''<a href="'' @ download_url @ ''" class="download-link">'')
     (generate_download_page download_url expiry_seconds app_name object_key)\<close>
proof -
  have "generate_download_page download_url expiry_seconds app_name object_key =
        (download_page_1 @ app_name @ download_page_2 @ download_url @ download_page_3 @
         app_name @ download_page_4 @ file_name object_key) @
        download_page_5 @ download_url @ download_page_6 @
        (str_int (expiry_hours expiry_seconds) @ download_page_7 @
         (if expiry_hours expiry_seconds \<noteq> 1 then ''s'' else '''') @ download_page_8)"
    by (simp add: generate_download_page_def)
  then show ?thesis
    by (simp only: sublist_bridge [OF download_page_5_suffix download_page_6_prefix])
qed

lemma download_page_file:
  \<open>sublist ('' File:</strong> '' @ file_name object_key @ ''\<newline>'')
     (generate_download_page download_url expiry_seconds app_name object_key)\<close>
proof -
  have "generate_download_page download_url expiry_seconds app_name object_key =
        (download_page_1 @ app_name @ download_page_2 @ download_url @ download_page_3 @
         app_name) @ download_page_4 @ file_name object_key @ download_page_5 @
        (download_url @ download_page_6 @
         str_int (expiry_hours expiry_seconds) @ download_page_7 @
         (if expiry_hours expiry_seconds \<noteq> 1 then ''s'' else '''') @ download_page_8)"
    by (simp add: generate_download_page_def)
  then show ?thesis
    by (simp only: sublist_bridge [OF download_page_4_suffix download_page_5_prefix])
qed

lemma download_page_hours:
  \<open>sublist (''<strong>'' @
            (str_int (expiry_seconds div 3600) @ '' hour'' @
             (if expiry_seconds div 3600 \<noteq> 1 then ''s'' else '''')) @
            ''</strong>'')
     (generate_download_page download_url expiry_seconds app_name object_key)\<close>
proof -
  have "generate_download_page download_url expiry_seconds app_name object_key =
        (download_page_1 @ app_name @ download_page_2 @ download_url @ download_page_3 @
         app_name @ download_page_4 @ file_name object_key @ download_page_5 @
         download_url) @ download_page_6 @
        (str_int (expiry_seconds div 3600) @ '' hour'' @
         (if expiry_seconds div 3600 \<noteq> 1 then ''s'' else '''')) @ download_page_8 @ []"
    by (simp add: generate_download_page_def expiry_hours_def download_page_7_eq)
  then show ?thesis
    by (simp only: sublist_bridge [OF download_page_6_suffix download_page_8_prefix])
qed

lemma error_page_title:
  \<open>sublist (''<h1>'' @ error_title @ ''</h1>'')
     (generate_error_page error_title error_details app_name)\<close>
proof -
  have "generate_error_page error_title error_details app_name =
        (error_page_1 @ app_name @ error_page_2 @ app_name) @ error_page_3 @ error_title @
        error_page_4 @ (error_details @ error_page_5)"
    by (simp add: generate_error_page_def)
  then show ?thesis
    by (simp only: sublist_bridge [OF error_page_3_suffix error_page_4_prefix])
qed

lemma error_page_details:
  "sublist error_details (generate_error_page error_title error_details app_name)"
proof -
  have "generate_error_page error_title error_details app_name =
        (error_page_1 @ app_name @ error_page_2 @ app_name @ error_page_3 @ error_title @
         error_page_4) @ error_details @ error_page_5"
    by (simp add: generate_error_page_def)
  then show ?thesis
    by (simp only: sublist_appendI)
qed

lemma generate_download_page_not_Nil:
  "generate_download_page download_url expiry_seconds app_name object_key \<noteq> []"
  by (simp add: generate_download_page_def download_page_1_def)

lemma generate_error_page_not_Nil:
  "generate_error_page error_title error_details app_name \<noteq> []"
  by (simp add: generate_error_page_def error_page_1_def)

section \<open>Facts about the handler\<close>

lemma handler_config_error:
  "DOWNLOAD_EXPIRY rt = Inl e \<Longrightarrow>
   lambda_handler rt ev = ([Print (''Event received: '' @ json_dumps rt ev)], Inl e)"
  by (simp add: lambda_handler_def)

lemma handler_success:
  assumes "DOWNLOAD_EXPIRY rt = Inr expiry" and "boto3_client rt = Inr ()"
    and "head_object rt (BUCKET_NAME rt) (OBJECT_KEY rt) = Inr ()"
    and "generate_presigned_url rt (BUCKET_NAME rt) (OBJECT_KEY rt) expiry = Inr url"
  shows "snd (lambda_handler rt ev) =
         Inr \<lparr>statusCode = 200,
              headers = [(''Content-Type'', ''text/html''),
                         (''Cache-Control'', ''no-cache, no-store, must-revalidate''),
                         (''Pragma'', ''no-cache''),
                         (''Expires'', ''0'')],
              body = generate_download_page url expiry (APP_NAME rt) (OBJECT_KEY rt)\<rparr>"
  using assms by (simp add: lambda_handler_def try_body_def Let_def)

lemma handler_not_found:
  assumes "DOWNLOAD_EXPIRY rt = Inr expiry" and "boto3_client rt = Inr ()"
    and "head_object rt (BUCKET_NAME rt) (OBJECT_KEY rt) =
         Inl (ClientError (Some (ErrorInfo (Some ''404'') m)) s)"
  shows "snd (lambda_handler rt ev) =
         Inr \<lparr>statusCode = 404,
              headers = [(''Content-Type'', ''text/html'')],
              body = generate_error_page ''File Not Found''
                       (''The requested file '' @ [CHR 0x27] @ OBJECT_KEY rt @ [CHR 0x27] @
                        '' was not found. Please contact support.'')
                       (APP_NAME rt)\<rparr>"
  using assms by (simp add: lambda_handler_def try_body_def Let_def)

lemma handler_probe_fault:
  assumes "DOWNLOAD_EXPIRY rt = Inr expiry" and "boto3_client rt = Inr ()"
    and "head_object rt (BUCKET_NAME rt) (OBJECT_KEY rt) =
         Inl (ClientError (Some (ErrorInfo (Some c) m)) s)"
    and "c \<noteq> ''404''"
  shows "snd (lambda_handler rt ev) =
         Inr \<lparr>statusCode = 500,
              headers = [(''Content-Type'', ''text/html'')],
              body = generate_error_page (''AWS Error: '' @ c)
                       (case m of None \<Rightarrow> s | Some msg \<Rightarrow> msg) (APP_NAME rt)\<rparr>"
  using assms
  by (simp add: lambda_handler_def try_body_def except_clauses_def Let_def)

lemma handler_sign_fault:
  assumes "DOWNLOAD_EXPIRY rt = Inr expiry" and "boto3_client rt = Inr ()"
    and "head_object rt (BUCKET_NAME rt) (OBJECT_KEY rt) = Inr ()"
    and "generate_presigned_url rt (BUCKET_NAME rt) (OBJECT_KEY rt) expiry =
         Inl (ClientError (Some (ErrorInfo (Some c) (Some msg))) s)"
  shows "snd (lambda_handler rt ev) =
         Inr \<lparr>statusCode = 500,
              headers = [(''Content-Type'', ''text/html'')],
              body = generate_error_page (''AWS Error: '' @ c) msg (APP_NAME rt)\<rparr>"
  using assms
  by (simp add: lambda_handler_def try_body_def except_clauses_def Let_def)

lemma handler_signs:
  assumes "DOWNLOAD_EXPIRY rt = Inr expiry" and "boto3_client rt = Inr ()"
    and "head_object rt (BUCKET_NAME rt) (OBJECT_KEY rt) = Inr ()"
  shows "GeneratePresignedUrl (BUCKET_NAME rt) (OBJECT_KEY rt) expiry \<in>
         set (fst (lambda_handler rt ev))"
  using assms
  by (cases "generate_presigned_url rt (BUCKET_NAME rt) (OBJECT_KEY rt) expiry")
     (simp_all add: lambda_handler_def try_body_def)

lemma handler_snd:
  "DOWNLOAD_EXPIRY rt = Inr expiry \<Longrightarrow>
   snd (lambda_handler rt ev) =
     Inr (case snd (try_body rt ev expiry) of
            Inr resp \<Rightarrow> resp
          | Inl e \<Rightarrow> snd (except_clauses rt e))"
  by (simp add: lambda_handler_def split: prod.splits sum.splits)

lemma handler_fst:
  "DOWNLOAD_EXPIRY rt = Inr expiry \<Longrightarrow>
   fst (lambda_handler rt ev) =
     Print (''Event received: '' @ json_dumps rt ev) # fst (try_body rt ev expiry) @
     (case snd (try_body rt ev expiry) of
        Inr resp \<Rightarrow> []
      | Inl e \<Rightarrow> fst (except_clauses rt e))"
  by (simp add: lambda_handler_def split: prod.splits sum.splits)

lemma except_clauses_response:
  "statusCode (snd (except_clauses rt e)) = 500 \<and>
   headers (snd (except_clauses rt e)) = [(''Content-Type'', ''text/html'')] \<and>
   (\<exists>title details.
      body (snd (except_clauses rt e)) = generate_error_page title details (APP_NAME rt))"
  by (cases e) (simp_all add: except_clauses_def Let_def, blast+)

lemma try_body_response:
  assumes "snd (try_body rt ev expiry) = Inr resp"
  shows "(head_object rt (BUCKET_NAME rt) (OBJECT_KEY rt) = Inr () \<and>
          (\<exists>url. generate_presigned_url rt (BUCKET_NAME rt) (OBJECT_KEY rt) expiry = Inr url \<and>
             resp = \<lparr>statusCode = 200,
                     headers = [(''Content-Type'', ''text/html''),
                                (''Cache-Control'', ''no-cache, no-store, must-revalidate''),
                                (''Pragma'', ''no-cache''),
                                (''Expires'', ''0'')],
                     body = generate_download_page url expiry (APP_NAME rt) (OBJECT_KEY rt)\<rparr>)) \<or>
         (head_object rt (BUCKET_NAME rt) (OBJECT_KEY rt) \<noteq> Inr () \<and>
          resp = \<lparr>statusCode = 404,
                  headers = [(''Content-Type'', ''text/html'')],
                  body = generate_error_page ''File Not Found''
                           (''The requested file '' @ [CHR 0x27] @ OBJECT_KEY rt @ [CHR 0x27] @
                            '' was not found. Please contact support.'')
                           (APP_NAME rt)\<rparr>)"
proof (cases "boto3_client rt")
  case (Inl e)
  with assms show ?thesis by (simp add: try_body_def)
next
  case client: (Inr u)
  show ?thesis
  proof (cases "head_object rt (BUCKET_NAME rt) (OBJECT_KEY rt)")
    case (Inl e)
    with assms client show ?thesis
      by (simp add: try_body_def split: exn.splits option.splits if_splits)
  next
    case probe: (Inr u')
    with assms client show ?thesis
      by (cases "generate_presigned_url rt (BUCKET_NAME rt) (OBJECT_KEY rt) expiry")
         (simp_all add: try_body_def)
  qed
qed

lemma try_body_sign_call:
  assumes "GeneratePresignedUrl b k e \<in> set (fst (try_body rt ev expiry))"
  shows "head_object rt (BUCKET_NAME rt) (OBJECT_KEY rt) = Inr () \<and> e = expiry \<and>
         (\<exists>post. fst (try_body rt ev expiry) =
            [log_code ev, HeadObject (BUCKET_NAME rt) (OBJECT_KEY rt),
             Print (''Object '' @ OBJECT_KEY rt @ '' exists in bucket '' @ BUCKET_NAME rt)] @
            GeneratePresignedUrl b k e # post \<and>
            (\<forall>x \<in> set post. \<not> is_store_call x))"
proof (cases "boto3_client rt")
  case (Inl x)
  with assms show ?thesis
    by (simp add: try_body_def log_code_def split: option.splits if_splits)
next
  case client: (Inr u)
  show ?thesis
  proof (cases "head_object rt (BUCKET_NAME rt) (OBJECT_KEY rt)")
    case (Inl x)
    with assms client show ?thesis
      by (simp add: try_body_def log_code_def split: exn.splits option.splits if_splits)
  next
    case probe: (Inr u')
    with assms client show ?thesis
      by (cases "generate_presigned_url rt (BUCKET_NAME rt) (OBJECT_KEY rt) expiry")
         (auto simp: try_body_def log_code_def split: option.splits if_splits)
  qed
qed

lemma config_other_sign:
  "BUCKET_NAME (rt\<lparr>generate_presigned_url := g\<rparr>) = BUCKET_NAME rt"
  "OBJECT_KEY (rt\<lparr>generate_presigned_url := g\<rparr>) = OBJECT_KEY rt"
  "APP_NAME (rt\<lparr>generate_presigned_url := g\<rparr>) = APP_NAME rt"
  "DOWNLOAD_EXPIRY (rt\<lparr>generate_presigned_url := g\<rparr>) = DOWNLOAD_EXPIRY rt"
  by (simp_all add: BUCKET_NAME_def OBJECT_KEY_def APP_NAME_def DOWNLOAD_EXPIRY_def)

lemma try_body_probe_first:
  "head_object rt (BUCKET_NAME rt) (OBJECT_KEY rt) \<noteq> Inr () \<Longrightarrow>
   try_body (rt\<lparr>generate_presigned_url := g\<rparr>) ev expiry = try_body rt ev expiry"
  by (cases "boto3_client rt"; cases "head_object rt (BUCKET_NAME rt) (OBJECT_KEY rt)")
     (simp_all add: try_body_def config_other_sign split: exn.splits option.splits)

lemma try_body_event:
  "snd (try_body rt ev expiry) = snd (try_body rt ev' expiry) \<and>
   store_calls (fst (try_body rt ev expiry)) = store_calls (fst (try_body rt ev' expiry))"
proof -
  have log: "\<And>e. \<not> is_store_call (log_code e)"
    by (simp add: log_code_def split: option.splits)
  show ?thesis
    by (simp add: try_body_def store_calls_def log
             split: sum.splits exn.splits option.splits)
qed

lemma handler_response_cases:
  assumes "snd (lambda_handler rt ev) = Inr resp"
  shows "(statusCode resp = 200 \<and>
          headers resp = [(''Content-Type'', ''text/html''),
                          (''Cache-Control'', ''no-cache, no-store, must-revalidate''),
                          (''Pragma'', ''no-cache''),
                          (''Expires'', ''0'')] \<and>
          head_object rt (BUCKET_NAME rt) (OBJECT_KEY rt) = Inr () \<and>
          (\<exists>url expiry. DOWNLOAD_EXPIRY rt = Inr expiry \<and>
             body resp = generate_download_page url expiry (APP_NAME rt) (OBJECT_KEY rt))) \<or>
         ((statusCode resp = 404 \<or> statusCode resp = 500) \<and>
          headers resp = [(''Content-Type'', ''text/html'')] \<and>
          (\<exists>title details. body resp = generate_error_page title details (APP_NAME rt)))"
proof (cases "DOWNLOAD_EXPIRY rt")
  case (Inl e)
  with assms show ?thesis by (simp add: handler_config_error)
next
  case expiry: (Inr expiry)
  show ?thesis
  proof (cases "snd (try_body rt ev expiry)")
    case (Inl e)
    with assms expiry have "resp = snd (except_clauses rt e)"
      by (simp add: handler_snd)
    with except_clauses_response [of rt e] show ?thesis by simp
  next
    case (Inr r)
    with assms expiry have "resp = r"
      by (simp add: handler_snd)
    from try_body_response [OF Inr] show ?thesis
    proof (elim disjE conjE exE)
      fix url
      assume "r = \<lparr>statusCode = 200,
                     headers = [(''Content-Type'', ''text/html''),
                                (''Cache-Control'', ''no-cache, no-store, must-revalidate''),
                                (''Pragma'', ''no-cache''),
                                (''Expires'', ''0'')],
                     body = generate_download_page url expiry (APP_NAME rt) (OBJECT_KEY rt)\<rparr>"
        and "head_object rt (BUCKET_NAME rt) (OBJECT_KEY rt) = Inr ()"
      with \<open>resp = r\<close> expiry show ?thesis by auto
    next
      assume "r = \<lparr>statusCode = 404,
                     headers = [(''Content-Type'', ''text/html'')],
                     body = generate_error_page ''File Not Found''
                              (''The requested file '' @ [CHR 0x27] @ OBJECT_KEY rt @ [CHR 0x27] @
                               '' was not found. Please contact support.'')
                              (APP_NAME rt)\<rparr>"
      with \<open>resp = r\<close> have "statusCode resp = 404"
        and "headers resp = [(''Content-Type'', ''text/html'')]"
        and "body resp = generate_error_page ''File Not Found''
                              (''The requested file '' @ [CHR 0x27] @ OBJECT_KEY rt @ [CHR 0x27] @
                               '' was not found. Please contact support.'')
                              (APP_NAME rt)"
        by simp_all
      then show ?thesis by blast
    qed
  qed
qed

lemma except_clauses_no_call:
  "store_calls (fst (except_clauses rt x)) = []"
  "GeneratePresignedUrl b k e \<notin> set (fst (except_clauses rt x))"
  by (cases x; simp add: except_clauses_def Let_def store_calls_def)+

section \<open>The example inputs, evaluated\<close>

lemma example_runtime_config:
  "BUCKET_NAME (example_runtime x p s) = ''b''"
  "OBJECT_KEY (example_runtime x p s) = ''photos/x.zip''"
  "APP_NAME (example_runtime x p s) = ''App''"
  "DOWNLOAD_EXPIRY (example_runtime x p s) = example_int x"
  by (simp_all add: BUCKET_NAME_def OBJECT_KEY_def APP_NAME_def DOWNLOAD_EXPIRY_def
        example_runtime_def dict_get_def)

lemma example_runtime_calls:
  "boto3_client (example_runtime x p s) = Inr ()"
  "head_object (example_runtime x p s) b k = p"
  "generate_presigned_url (example_runtime x p s) b k e = s"
  "json_dumps (example_runtime x p s) ev = ''{}''"
  by (simp_all add: example_runtime_def)

lemma example_int_examples:
  "example_int ''3600'' = Inr 3600"
  "example_int ''7200'' = Inr 7200"
  "example_int ''0'' = Inr 0"
  "example_int ''abc'' =
     Inl (ValueError (''invalid literal for int() with base 10: '' @ [CHR 0x27] @ ''abc'' @
                      [CHR 0x27]))"
  "example_int ''-1'' = Inr (- 1)"
  by (simp_all add: example_int_def)

lemma file_name_example: "file_name ''photos/x.zip'' = ''x.zip''"
  by (simp add: file_name_def)

lemma str_int_examples: "str_int 0 = ''0''" "str_int 1 = ''1''" "str_int 2 = ''2''"
  by (simp_all add: str_int_def str_nat.simps)

lemma example_success_response:
  "snd (lambda_handler example_success ev) =
     Inr \<lparr>statusCode = 200,
          headers = [(''Content-Type'', ''text/html''),
                     (''Cache-Control'', ''no-cache, no-store, must-revalidate''),
                     (''Pragma'', ''no-cache''),
                     (''Expires'', ''0'')],
          body = generate_download_page ''https://signed/url'' 3600 ''App'' ''photos/x.zip''\<rparr>"
  using handler_success [of example_success 3600 "''https://signed/url''" ev]
  by (simp add: example_success_def example_runtime_config example_runtime_calls
        example_int_examples)

lemma example_missing_response:
  "snd (lambda_handler example_missing ev) =
     Inr \<lparr>statusCode = 404,
          headers = [(''Content-Type'', ''text/html'')],
          body = generate_error_page ''File Not Found''
                   (''The requested file '' @ [CHR 0x27] @ ''photos/x.zip'' @ [CHR 0x27] @
                    '' was not found. Please contact support.'')
                   ''App''\<rparr>"
  using handler_not_found [of example_missing 3600 "Some ''Not Found''"
      "''An error occurred (404): Not Found''" ev]
  by (simp add: example_missing_def example_runtime_config example_runtime_calls
        example_int_examples client_error_def)

lemma example_denied_response:
  "snd (lambda_handler example_denied ev) =
     Inr \<lparr>statusCode = 500,
          headers = [(''Content-Type'', ''text/html'')],
          body = generate_error_page ''AWS Error: AccessDenied'' ''denied'' ''App''\<rparr>"
  using handler_probe_fault [of example_denied 3600 "''AccessDenied''" "Some ''denied''"
      "''An error occurred (AccessDenied): denied''" ev]
  by (simp add: example_denied_def example_runtime_config example_runtime_calls
        example_int_examples client_error_def)

lemma example_no_such_key_response:
  "snd (lambda_handler example_no_such_key ev) =
     Inr \<lparr>statusCode = 500,
          headers = [(''Content-Type'', ''text/html'')],
          body = generate_error_page ''AWS Error: NoSuchKey''
                   ''The specified key does not exist.'' ''App''\<rparr>"
  using handler_probe_fault [of example_no_such_key 3600 "''NoSuchKey''"
      "Some ''The specified key does not exist.''"
      "''An error occurred (NoSuchKey): The specified key does not exist.''" ev]
  by (simp add: example_no_such_key_def example_runtime_config example_runtime_calls
        example_int_examples client_error_def)

lemma example_zero_expiry_response:
  "snd (lambda_handler example_zero_expiry ev) =
     Inr \<lparr>statusCode = 200,
          headers = [(''Content-Type'', ''text/html''),
                     (''Cache-Control'', ''no-cache, no-store, must-revalidate''),
                     (''Pragma'', ''no-cache''),
                     (''Expires'', ''0'')],
          body = generate_download_page ''https://signed/url'' 0 ''App'' ''photos/x.zip''\<rparr>"
  using handler_success [of example_zero_expiry 0 "''https://signed/url''" ev]
  by (simp add: example_zero_expiry_def example_runtime_config example_runtime_calls
        example_int_examples)

lemma example_effects:
  "example_int x = Inr n \<Longrightarrow>
   fst (lambda_handler (example_runtime x (Inr ()) (Inr url)) ev) =
     [Print ''Event received: {}'', log_code ev, HeadObject ''b'' ''photos/x.zip'',
      Print ''Object photos/x.zip exists in bucket b'',
      GeneratePresignedUrl ''b'' ''photos/x.zip'' n,
      Print (''Generated pre-signed URL: '' @ take 50 url @ ''...'')]"
  by (simp add: handler_fst [of _ n] try_body_def example_runtime_config
        example_runtime_calls)

lemma log_code_examples:
  "log_code example_event = Print ''Authorization code received: abc123...''"
  "log_code no_code_event = Print ''No authorization code - might be direct access''"
  by (simp_all add: log_code_def auth_code_def query_params_def example_event_def
        no_code_event_def)

lemma example_injected_config:
  \<open>BUCKET_NAME example_injected = ''b''\<close>
  \<open>OBJECT_KEY example_injected = ''photos/x.zip''\<close>
  \<open>APP_NAME example_injected =
     ''<meta http-equiv="refresh" content="3;url=https://signed/url">''\<close>
  \<open>DOWNLOAD_EXPIRY example_injected = Inr 3600\<close>
  \<open>boto3_client example_injected = Inr ()\<close>
  \<open>head_object example_injected b k = Inr ()\<close>
  \<open>generate_presigned_url example_injected b k e = Inr ''https://signed/url''\<close>
  by (simp_all add: BUCKET_NAME_def OBJECT_KEY_def APP_NAME_def DOWNLOAD_EXPIRY_def
        example_injected_def example_success_def example_runtime_def dict_get_def
        example_int_def)

section \<open>The claims\<close>

text \<open>
  C1 (amended). When the probe reports that the object exists and signing succeeds, the
  handler returns status 200 with \<^verbatim>\<open>Content-Type: text/html\<close> and the three
  cache-suppression headers; the body holds the redirect directive with the signed URL in
  it and the download link with the signed URL in it; when neither the signed URL, the
  application name nor the object key holds a \<^verbatim>\<open><\<close>, the directive occurs exactly once in
  the body. A response whose status is not 200 has none of the cache-suppression headers.
\<close>

theorem success_response:
  \<open>(DOWNLOAD_EXPIRY rt = Inr expiry \<and> boto3_client rt = Inr () \<and>
     head_object rt (BUCKET_NAME rt) (OBJECT_KEY rt) = Inr () \<and>
     generate_presigned_url rt (BUCKET_NAME rt) (OBJECT_KEY rt) expiry = Inr url \<longrightarrow>
     (\<exists>resp. snd (lambda_handler rt ev) = Inr resp \<and>
        statusCode resp = 200 \<and>
        map_of (headers resp) ''Content-Type'' = Some ''text/html'' \<and>
        map_of (headers resp) ''Cache-Control'' = Some ''no-cache, no-store, must-revalidate'' \<and>
        map_of (headers resp) ''Pragma'' = Some ''no-cache'' \<and>
        map_of (headers resp) ''Expires'' = Some ''0'' \<and>
        sublist (''<meta http-equiv="refresh" content="3;url='' @ url @ ''">'') (body resp) \<and>
        sublist (''<a href="'' @ url @ ''" class="download-link">'') (body resp) \<and>
        (CHR ''<'' \<notin> set url \<and> CHR ''<'' \<notin> set (APP_NAME rt) \<and>
         CHR ''<'' \<notin> set (OBJECT_KEY rt) \<longrightarrow>
           occurrences ''<meta http-equiv="refresh"'' (body resp) = 1 \<and>
           occurrences (''<meta http-equiv="refresh" content="3;url='' @ url @ ''">'')
             (body resp) = 1))) \<and>
    (\<forall>resp. snd (lambda_handler rt ev) = Inr resp \<and> statusCode resp \<noteq> 200 \<longrightarrow>
       map_of (headers resp) ''Cache-Control'' = None \<and>
       map_of (headers resp) ''Pragma'' = None \<and>
       map_of (headers resp) ''Expires'' = None)\<close>
proof (intro conjI impI allI)
  assume h: "DOWNLOAD_EXPIRY rt = Inr expiry \<and> boto3_client rt = Inr () \<and>
     head_object rt (BUCKET_NAME rt) (OBJECT_KEY rt) = Inr () \<and>
     generate_presigned_url rt (BUCKET_NAME rt) (OBJECT_KEY rt) expiry = Inr url"
  let ?page = "generate_download_page url expiry (APP_NAME rt) (OBJECT_KEY rt)"
  let ?directive = \<open>''<meta http-equiv="refresh" content="3;url='' @ url @ ''">''\<close>
  let ?resp = "\<lparr>statusCode = 200,
                headers = [(''Content-Type'', ''text/html''),
                           (''Cache-Control'', ''no-cache, no-store, must-revalidate''),
                           (''Pragma'', ''no-cache''),
                           (''Expires'', ''0'')],
                body = ?page\<rparr>"
  from h have r: "snd (lambda_handler rt ev) = Inr ?resp"
    using handler_success [of rt expiry url ev] by blast
  have directive: "sublist ?directive ?page"
    by (rule download_page_directive)
  have link: \<open>sublist (''<a href="'' @ url @ ''" class="download-link">'') ?page\<close>
    by (rule download_page_link)
  have once: \<open>CHR ''<'' \<notin> set url \<and> CHR ''<'' \<notin> set (APP_NAME rt) \<and>
              CHR ''<'' \<notin> set (OBJECT_KEY rt) \<longrightarrow>
              occurrences ''<meta http-equiv="refresh"'' ?page = 1 \<and>
              occurrences ?directive ?page = 1\<close>
  proof
    assume free: "CHR ''<'' \<notin> set url \<and> CHR ''<'' \<notin> set (APP_NAME rt) \<and>
              CHR ''<'' \<notin> set (OBJECT_KEY rt)"
    from free have "CHR ''<'' \<notin> set (file_name (OBJECT_KEY rt))"
      using file_name_subset by blast
    with free have one: \<open>occurrences ''<meta http-equiv="refresh"'' ?page = 1\<close>
      by (simp add: download_page_one_directive)
    have \<open>prefix ''<meta http-equiv="refresh"'' ?directive\<close>
      by simp
    then have "occurrences ?directive ?page \<le> 1"
      using occurrences_prefix_le one by metis
    moreover have "1 \<le> occurrences ?directive ?page"
      using directive by (rule occurrences_sublist)
    ultimately show \<open>occurrences ''<meta http-equiv="refresh"'' ?page = 1 \<and>
              occurrences ?directive ?page = 1\<close>
      using one by simp
  qed
  have "statusCode ?resp = 200 \<and>
        map_of (headers ?resp) ''Content-Type'' = Some ''text/html'' \<and>
        map_of (headers ?resp) ''Cache-Control'' = Some ''no-cache, no-store, must-revalidate'' \<and>
        map_of (headers ?resp) ''Pragma'' = Some ''no-cache'' \<and>
        map_of (headers ?resp) ''Expires'' = Some ''0''"
    by simp
  with r directive link once
  show "\<exists>resp. snd (lambda_handler rt ev) = Inr resp \<and>
        statusCode resp = 200 \<and>
        map_of (headers resp) ''Content-Type'' = Some ''text/html'' \<and>
        map_of (headers resp) ''Cache-Control'' = Some ''no-cache, no-store, must-revalidate'' \<and>
        map_of (headers resp) ''Pragma'' = Some ''no-cache'' \<and>
        map_of (headers resp) ''Expires'' = Some ''0'' \<and>
        sublist ?directive (body resp) \<and>
        sublist (''<a href=\"'' @ url @ ''\" class=\"download-link\">'') (body resp) \<and>
        (CHR ''<'' \<notin> set url \<and> CHR ''<'' \<notin> set (APP_NAME rt) \<and>
         CHR ''<'' \<notin> set (OBJECT_KEY rt) \<longrightarrow>
           occurrences ''<meta http-equiv=\"refresh\"'' (body resp) = 1 \<and>
           occurrences ?directive (body resp) = 1)"
    by (intro exI [of _ ?resp]) simp
next
  fix resp
  assume a: "snd (lambda_handler rt ev) = Inr resp \<and> statusCode resp \<noteq> 200"
  with handler_response_cases [of rt ev resp]
  have hs: "headers resp = [(''Content-Type'', ''text/html'')]"
    by auto
  show "map_of (headers resp) ''Cache-Control'' = None"
    and "map_of (headers resp) ''Pragma'' = None"
    and "map_of (headers resp) ''Expires'' = None"
    by (simp_all add: hs)
qed

theorem success_response_witness:
  \<open>DOWNLOAD_EXPIRY example_success = Inr 3600 \<and>
   boto3_client example_success = Inr () \<and>
   head_object example_success (BUCKET_NAME example_success) (OBJECT_KEY example_success) =
     Inr () \<and>
   generate_presigned_url example_success (BUCKET_NAME example_success)
     (OBJECT_KEY example_success) 3600 = Inr ''https://signed/url'' \<and>
   CHR ''<'' \<notin> set ''https://signed/url'' \<and>
   CHR ''<'' \<notin> set (APP_NAME example_success) \<and>
   CHR ''<'' \<notin> set (OBJECT_KEY example_success) \<and>
   sublist ''<meta http-equiv="refresh" content="3;url=https://signed/url">''
     (generate_download_page ''https://signed/url'' 3600 ''App'' ''photos/x.zip'') \<and>
   occurrences ''<meta http-equiv="refresh" content="3;url=https://signed/url">''
     (generate_download_page ''https://signed/url'' 3600 ''App'' ''photos/x.zip'') = 1 \<and>
   snd (lambda_handler example_missing example_event) =
     Inr \<lparr>statusCode = 404,
          headers = [(''Content-Type'', ''text/html'')],
          body = generate_error_page ''File Not Found''
                   (''The requested file '' @ [CHR 0x27] @ ''photos/x.zip'' @ [CHR 0x27] @
                    '' was not found. Please contact support.'')
                   ''App''\<rparr> \<and>
   map_of [(''Content-Type'', ''text/html'')] ''Cache-Control'' = None\<close>
proof -
  have hyps: "DOWNLOAD_EXPIRY example_success = Inr 3600 \<and>
     boto3_client example_success = Inr () \<and>
     head_object example_success (BUCKET_NAME example_success) (OBJECT_KEY example_success) =
       Inr () \<and>
     generate_presigned_url example_success (BUCKET_NAME example_success)
       (OBJECT_KEY example_success) 3600 = Inr ''https://signed/url''"
    by (simp add: example_success_def example_runtime_config example_runtime_calls
          example_int_examples)
  have free: "CHR ''<'' \<notin> set ''https://signed/url'' \<and>
     CHR ''<'' \<notin> set (APP_NAME example_success) \<and>
     CHR ''<'' \<notin> set (OBJECT_KEY example_success)"
    by (simp add: example_success_def example_runtime_config)
  from success_response [of example_success 3600 "''https://signed/url''" example_event]
    hyps free
  have \<open>sublist (''<meta http-equiv="refresh" content="3;url='' @ ''https://signed/url'' @ ''">'')
          (generate_download_page ''https://signed/url'' 3600 ''App'' ''photos/x.zip'') \<and>
        occurrences (''<meta http-equiv="refresh" content="3;url='' @ ''https://signed/url'' @ ''">'')
          (generate_download_page ''https://signed/url'' 3600 ''App'' ''photos/x.zip'') = 1\<close>
    by (auto simp only: example_success_response sum.inject response.simps)
  moreover
  from success_response [of example_missing 3600 "''u''" example_event]
  have "map_of [(''Content-Type'', ''text/html'')] ''Cache-Control'' = None"
    by simp
  ultimately show ?thesis
    using hyps free example_missing_response [of example_event] by simp
qed

text \<open>
  The claim as first stated fails: the templates put the application name into the page
  as it is, so with an application name that is itself the directive the success page holds
  the directive with the signed URL three times: in the title, in its own place, and in
  the line that shows the application name.
\<close>

theorem directive_repeated_by_app_name:
  \<open>snd (lambda_handler example_injected example_event) =
     Inr \<lparr>statusCode = 200,
          headers = [(''Content-Type'', ''text/html''),
                     (''Cache-Control'', ''no-cache, no-store, must-revalidate''),
                     (''Pragma'', ''no-cache''),
                     (''Expires'', ''0'')],
          body = generate_download_page ''https://signed/url'' 3600
                   ''<meta http-equiv="refresh" content="3;url=https://signed/url">''
                   ''photos/x.zip''\<rparr> \<and>
   occurrences ''<meta http-equiv="refresh" content="3;url=https://signed/url">''
     (generate_download_page ''https://signed/url'' 3600
        ''<meta http-equiv="refresh" content="3;url=https://signed/url">''
        ''photos/x.zip'') = 3\<close>
proof -
  let ?d = \<open>''<meta http-equiv="refresh" content="3;url=https://signed/url">''\<close>
  let ?m = \<open>''<meta http-equiv="refresh"''\<close>
  let ?u = "''https://signed/url''"
  let ?page = "generate_download_page ?u 3600 ?d ''photos/x.zip''"
  have resp: "snd (lambda_handler example_injected example_event) =
     Inr \<lparr>statusCode = 200,
          headers = [(''Content-Type'', ''text/html''),
                     (''Cache-Control'', ''no-cache, no-store, must-revalidate''),
                     (''Pragma'', ''no-cache''),
                     (''Expires'', ''0'')],
          body = ?page\<rparr>"
    using handler_success [of example_injected 3600 ?u example_event]
    by (simp only: example_injected_config simp_thms)
  have skip: "\<And>t r. CHR ''<'' \<notin> set t \<Longrightarrow>
      occurrences (CHR ''<'' # ''meta http-equiv=\"refresh\"'') (t @ r) =
      occurrences (CHR ''<'' # ''meta http-equiv=\"refresh\"'') r"
    by (rule occurrences_skip)
  have url: "CHR ''<'' \<notin> set ?u"
    by simp
  have name: "CHR ''<'' \<notin> set (file_name ''photos/x.zip'')"
    by (simp add: file_name_example)
  have "?page =
        download_page_1 @ ?d @ download_page_2 @ ?u @ download_page_3 @ ?d @
        download_page_4 @ file_name ''photos/x.zip'' @ download_page_5 @ ?u @
        download_page_6 @ str_int (expiry_hours 3600) @ download_page_7 @
        (if expiry_hours 3600 \<noteq> 1 then ''s'' else '''') @ download_page_8 @ []"
    by (simp only: generate_download_page_def append_Nil2)
  then have "occurrences ?m ?page = 1 + (1 + (1 + 0))"
    by (simp only: occurrences_download_page_1 occurrences_download_page_2
          occurrences_download_page_3 occurrences_download_page_4
          occurrences_download_page_5 occurrences_download_page_6
          occurrences_download_page_7 occurrences_download_page_8 occurrences_plural
          occurrences_directive_text skip [OF url] skip [OF name] skip [OF str_int_no_lt])
  moreover have "occurrences ?d ?page \<le> occurrences ?m ?page"
    by (rule occurrences_prefix_le) simp
  ultimately have upper: "occurrences ?d ?page \<le> 3"
    by simp
  obtain before where before:
    \<open>download_page_2 = before @ ''<meta http-equiv="refresh" content="3;url=''\<close>
    using download_page_2_suffix by (auto simp: suffix_def)
  obtain after where after: \<open>download_page_3 = ''">'' @ after\<close>
    using download_page_3_prefix by (auto simp: prefix_def)
  have "?page =
        download_page_1 @ ?d @ before @ ?d @ after @ ?d @
        (download_page_4 @ file_name ''photos/x.zip'' @ download_page_5 @ ?u @
         download_page_6 @ str_int (expiry_hours 3600) @ download_page_7 @
         (if expiry_hours 3600 \<noteq> 1 then ''s'' else '''') @ download_page_8)"
    by (simp add: generate_download_page_def before after)
  moreover have "3 \<le> occurrences ?d (download_page_1 @ ?d @ before @ ?d @ after @ ?d @
        (download_page_4 @ file_name ''photos/x.zip'' @ download_page_5 @ ?u @
         download_page_6 @ str_int (expiry_hours 3600) @ download_page_7 @
         (if expiry_hours 3600 \<noteq> 1 then ''s'' else '''') @ download_page_8))"
    by (rule occurrences_three) simp
  ultimately have "3 \<le> occurrences ?d ?page"
    by (simp only:)
  with upper have "occurrences ?d ?page = 3"
    by simp
  with resp show ?thesis
    by (simp only: simp_thms)
qed

text \<open>
  C2. When the probe reports the object as not found (a \<^verbatim>\<open>ClientError\<close> whose code is
  \<^verbatim>\<open>404\<close>), the handler returns status 404; the body is the error page with the title
  \<^verbatim>\<open>File Not Found\<close> and a detail naming the object key, so it contains both.
\<close>

theorem not_found_response:
  assumes "DOWNLOAD_EXPIRY rt = Inr expiry" and "boto3_client rt = Inr ()"
    and "head_object rt (BUCKET_NAME rt) (OBJECT_KEY rt) =
         Inl (ClientError (Some (ErrorInfo (Some ''404'') m)) s)"
  shows "\<exists>resp. snd (lambda_handler rt ev) = Inr resp \<and>
           statusCode resp = 404 \<and>
           body resp = generate_error_page ''File Not Found''
                         (''The requested file '' @ [CHR 0x27] @ OBJECT_KEY rt @ [CHR 0x27] @
                          '' was not found. Please contact support.'')
                         (APP_NAME rt) \<and>
           sublist ''<h1>File Not Found</h1>'' (body resp) \<and>
           sublist (OBJECT_KEY rt) (body resp)"
proof -
  let ?details = "''The requested file '' @ [CHR 0x27] @ OBJECT_KEY rt @ [CHR 0x27] @
                  '' was not found. Please contact support.''"
  let ?page = "generate_error_page ''File Not Found'' ?details (APP_NAME rt)"
  have "sublist (''<h1>'' @ ''File Not Found'' @ ''</h1>'') ?page"
    by (rule error_page_title)
  then have title: "sublist ''<h1>File Not Found</h1>'' ?page"
    by simp
  have "sublist (OBJECT_KEY rt) ?details"
    by (metis sublist_appendI append_assoc)
  moreover have "sublist ?details ?page"
    by (rule error_page_details)
  ultimately have key: "sublist (OBJECT_KEY rt) ?page"
    by (rule sublist_order.order.trans)
  from handler_not_found [OF assms, of ev] title key show ?thesis
    by simp
qed

theorem not_found_response_witness:
  "DOWNLOAD_EXPIRY example_missing = Inr 3600 \<and>
   boto3_client example_missing = Inr () \<and>
   head_object example_missing (BUCKET_NAME example_missing) (OBJECT_KEY example_missing) =
     Inl (ClientError (Some (ErrorInfo (Some ''404'') (Some ''Not Found'')))
            ''An error occurred (404): Not Found'') \<and>
   OBJECT_KEY example_missing = ''photos/x.zip'' \<and>
   (\<exists>resp. snd (lambda_handler example_missing example_event) = Inr resp \<and>
      statusCode resp = 404 \<and>
      sublist ''<h1>File Not Found</h1>'' (body resp) \<and>
      sublist ''photos/x.zip'' (body resp))"
proof -
  have hyps: "DOWNLOAD_EXPIRY example_missing = Inr 3600"
    "boto3_client example_missing = Inr ()"
    "head_object example_missing (BUCKET_NAME example_missing) (OBJECT_KEY example_missing) =
     Inl (ClientError (Some (ErrorInfo (Some ''404'') (Some ''Not Found'')))
            ''An error occurred (404): Not Found'')"
    "OBJECT_KEY example_missing = ''photos/x.zip''"
    by (simp_all add: example_missing_def example_runtime_config example_runtime_calls
          example_int_examples client_error_def)
  from not_found_response [OF hyps(1,2,3), of example_event] hyps show ?thesis
    by auto
qed

text \<open>
  C3. When the probe raises a \<^verbatim>\<open>ClientError\<close> whose code is not \<^verbatim>\<open>404\<close>, or the probe
  succeeds and signing raises a \<^verbatim>\<open>ClientError\<close>, with code \<open>c\<close> and message \<open>msg\<close>, the
  handler returns status 500; the body is the error page with the title
  \<^verbatim>\<open>AWS Error: \<close>\<open>c\<close> and the detail \<open>msg\<close> as it is, so it contains both.
\<close>

theorem store_fault_response:
  assumes "DOWNLOAD_EXPIRY rt = Inr expiry" and "boto3_client rt = Inr ()"
    and "(head_object rt (BUCKET_NAME rt) (OBJECT_KEY rt) =
            Inl (ClientError (Some (ErrorInfo (Some c) (Some msg))) s) \<and> c \<noteq> ''404'') \<or>
         (head_object rt (BUCKET_NAME rt) (OBJECT_KEY rt) = Inr () \<and>
          generate_presigned_url rt (BUCKET_NAME rt) (OBJECT_KEY rt) expiry =
            Inl (ClientError (Some (ErrorInfo (Some c) (Some msg))) s))"
  shows "\<exists>resp. snd (lambda_handler rt ev) = Inr resp \<and>
           statusCode resp = 500 \<and>
           body resp = generate_error_page (''AWS Error: '' @ c) msg (APP_NAME rt) \<and>
           sublist (''<h1>AWS Error: '' @ c @ ''</h1>'') (body resp) \<and>
           sublist msg (body resp)"
proof -
  let ?page = "generate_error_page (''AWS Error: '' @ c) msg (APP_NAME rt)"
  have "sublist (''<h1>'' @ (''AWS Error: '' @ c) @ ''</h1>'') ?page"
    by (rule error_page_title)
  then have title: "sublist (''<h1>AWS Error: '' @ c @ ''</h1>'') ?page"
    by simp
  have details: "sublist msg ?page"
    by (rule error_page_details)
  from assms(3) have "snd (lambda_handler rt ev) =
      Inr \<lparr>statusCode = 500, headers = [(''Content-Type'', ''text/html'')], body = ?page\<rparr>"
  proof (elim disjE conjE)
    assume "head_object rt (BUCKET_NAME rt) (OBJECT_KEY rt) =
              Inl (ClientError (Some (ErrorInfo (Some c) (Some msg))) s)"
      and "c \<noteq> ''404''"
    with handler_probe_fault [OF assms(1,2), of c "Some msg" s ev] show ?thesis
      by simp
  next
    assume "head_object rt (BUCKET_NAME rt) (OBJECT_KEY rt) = Inr ()"
      and "generate_presigned_url rt (BUCKET_NAME rt) (OBJECT_KEY rt) expiry =
             Inl (ClientError (Some (ErrorInfo (Some c) (Some msg))) s)"
    with handler_sign_fault [OF assms(1,2)] show ?thesis
      by simp
  qed
  with title details show ?thesis
    by simp
qed

theorem store_fault_response_witness:
  "DOWNLOAD_EXPIRY example_denied = Inr 3600 \<and>
   boto3_client example_denied = Inr () \<and>
   head_object example_denied (BUCKET_NAME example_denied) (OBJECT_KEY example_denied) =
     Inl (ClientError (Some (ErrorInfo (Some ''AccessDenied'') (Some ''denied'')))
            ''An error occurred (AccessDenied): denied'') \<and>
   ''AccessDenied'' \<noteq> ''404'' \<and>
   (\<exists>resp. snd (lambda_handler example_denied example_event) = Inr resp \<and>
      statusCode resp = 500 \<and>
      sublist ''<h1>AWS Error: AccessDenied</h1>'' (body resp) \<and>
      sublist ''denied'' (body resp))"
proof -
  have hyps: "DOWNLOAD_EXPIRY example_denied = Inr 3600"
    "boto3_client example_denied = Inr ()"
    "head_object example_denied (BUCKET_NAME example_denied) (OBJECT_KEY example_denied) =
     Inl (ClientError (Some (ErrorInfo (Some ''AccessDenied'') (Some ''denied'')))
            ''An error occurred (AccessDenied): denied'')"
    "''AccessDenied'' \<noteq> ''404''"
    by (simp_all add: example_denied_def example_runtime_config example_runtime_calls
          example_int_examples client_error_def)
  from store_fault_response [OF hyps(1,2), of "''AccessDenied''" "''denied''"
      "''An error occurred (AccessDenied): denied''" example_event] hyps
  show ?thesis
    by auto
qed

text \<open>
  C4 (amended). For every event and every behaviour of the store, whenever \<^verbatim>\<open>int\<close>
  returns on the text of \<^verbatim>\<open>DOWNLOAD_EXPIRY\<close> (on \<^verbatim>\<open>3600\<close> when it is unset), the handler
  returns a response: the status is 200, 404 or 500, the \<^verbatim>\<open>Content-Type\<close> header is
  \<^verbatim>\<open>text/html\<close>, and the body is one of the two pages, never empty. No exception raised
  inside the \<^verbatim>\<open>try\<close> reaches the caller.
\<close>

theorem configured_handler_responds:
  assumes "py_int rt (dict_get (environ rt) ''DOWNLOAD_EXPIRY'' ''3600'') = Inr expiry"
  shows "\<exists>resp. snd (lambda_handler rt ev) = Inr resp \<and>
           statusCode resp \<in> {200, 404, 500} \<and>
           map_of (headers resp) ''Content-Type'' = Some ''text/html'' \<and>
           body resp \<noteq> []"
proof -
  from assms have "DOWNLOAD_EXPIRY rt = Inr expiry"
    by (simp add: DOWNLOAD_EXPIRY_def)
  then obtain resp where r: "snd (lambda_handler rt ev) = Inr resp"
    by (simp add: handler_snd)
  from handler_response_cases [OF r]
  have "statusCode resp \<in> {200, 404, 500} \<and>
        map_of (headers resp) ''Content-Type'' = Some ''text/html'' \<and>
        body resp \<noteq> []"
    by (auto simp: generate_download_page_not_Nil generate_error_page_not_Nil
          generate_download_page_not_Nil [symmetric] generate_error_page_not_Nil [symmetric])
  with r show ?thesis by blast
qed

theorem configured_handler_responds_witness:
  "py_int example_denied (dict_get (environ example_denied) ''DOWNLOAD_EXPIRY'' ''3600'') =
     Inr 3600 \<and>
   (\<exists>resp. snd (lambda_handler example_denied example_event) = Inr resp \<and>
      statusCode resp \<in> {200, 404, 500} \<and>
      map_of (headers resp) ''Content-Type'' = Some ''text/html'' \<and>
      body resp \<noteq> [])"
proof -
  have h: "py_int example_denied
             (dict_get (environ example_denied) ''DOWNLOAD_EXPIRY'' ''3600'') = Inr 3600"
    using example_runtime_config(4) [of "''3600''"
        "Inl (client_error ''AccessDenied'' ''denied'')" "Inr ''https://signed/url''"]
    by (simp add: example_denied_def example_int_examples DOWNLOAD_EXPIRY_def)
  from configured_handler_responds [OF h, of example_event] h show ?thesis
    by blast
qed

text \<open>
  The claim as first stated fails: with \<^verbatim>\<open>DOWNLOAD_EXPIRY=abc\<close> the \<^verbatim>\<open>ValueError\<close> of
  \<^verbatim>\<open>int\<close> is raised on line 28, before the \<^verbatim>\<open>try\<close>, and reaches the caller.
\<close>

theorem bad_expiry_raises:
  "snd (lambda_handler example_bad_expiry example_event) =
     Inl (ValueError (''invalid literal for int() with base 10: '' @ [CHR 0x27] @ ''abc'' @
                      [CHR 0x27]))"
  by (simp add: handler_config_error example_bad_expiry_def example_runtime_config
        example_int_examples)

text \<open>
  C5 (amended). The link expiry that the workflow uses is the integer that \<^verbatim>\<open>int\<close>
  returns on \<^verbatim>\<open>DOWNLOAD_EXPIRY\<close> (\<^verbatim>\<open>3600\<close> when unset), whatever its sign. Whenever the
  probe returns, the signing operation is called with exactly that integer as its time to
  live, and when signing returns, the success page is rendered with it: no value, zero
  and negative ones included, is refused. Conversely every call to the signing operation
  and every success page uses that integer and no other.
\<close>

theorem expiry_passed_unchanged:
  "(py_int rt (dict_get (environ rt) ''DOWNLOAD_EXPIRY'' ''3600'') = Inr e \<and>
    boto3_client rt = Inr () \<and>
    head_object rt (BUCKET_NAME rt) (OBJECT_KEY rt) = Inr () \<longrightarrow>
      GeneratePresignedUrl (BUCKET_NAME rt) (OBJECT_KEY rt) e \<in>
        set (fst (lambda_handler rt ev)) \<and>
      (\<forall>url. generate_presigned_url rt (BUCKET_NAME rt) (OBJECT_KEY rt) e = Inr url \<longrightarrow>
         snd (lambda_handler rt ev) =
           Inr \<lparr>statusCode = 200,
                headers = [(''Content-Type'', ''text/html''),
                           (''Cache-Control'', ''no-cache, no-store, must-revalidate''),
                           (''Pragma'', ''no-cache''),
                           (''Expires'', ''0'')],
                body = generate_download_page url e (APP_NAME rt) (OBJECT_KEY rt)\<rparr>)) \<and>
   (\<forall>b k t. GeneratePresignedUrl b k t \<in> set (fst (lambda_handler rt ev)) \<longrightarrow>
      py_int rt (dict_get (environ rt) ''DOWNLOAD_EXPIRY'' ''3600'') = Inr t) \<and>
   (\<forall>resp. snd (lambda_handler rt ev) = Inr resp \<and> statusCode resp = 200 \<longrightarrow>
      (\<exists>url t. py_int rt (dict_get (environ rt) ''DOWNLOAD_EXPIRY'' ''3600'') = Inr t \<and>
         body resp = generate_download_page url t (APP_NAME rt) (OBJECT_KEY rt)))"
proof -
  have used: "GeneratePresignedUrl (BUCKET_NAME rt) (OBJECT_KEY rt) e \<in>
        set (fst (lambda_handler rt ev)) \<and>
      (\<forall>url. generate_presigned_url rt (BUCKET_NAME rt) (OBJECT_KEY rt) e = Inr url \<longrightarrow>
         snd (lambda_handler rt ev) =
           Inr \<lparr>statusCode = 200,
                headers = [(''Content-Type'', ''text/html''),
                           (''Cache-Control'', ''no-cache, no-store, must-revalidate''),
                           (''Pragma'', ''no-cache''),
                           (''Expires'', ''0'')],
                body = generate_download_page url e (APP_NAME rt) (OBJECT_KEY rt)\<rparr>)"
    if h: "py_int rt (dict_get (environ rt) ''DOWNLOAD_EXPIRY'' ''3600'') = Inr e \<and>
           boto3_client rt = Inr () \<and>
           head_object rt (BUCKET_NAME rt) (OBJECT_KEY rt) = Inr ()"
  proof -
    from h have cfg: "DOWNLOAD_EXPIRY rt = Inr e"
      by (simp add: DOWNLOAD_EXPIRY_def)
    from h handler_signs [OF cfg, of ev]
    have "GeneratePresignedUrl (BUCKET_NAME rt) (OBJECT_KEY rt) e \<in>
        set (fst (lambda_handler rt ev))"
      by blast
    moreover from h handler_success [OF cfg, of _ ev]
    have "\<forall>url. generate_presigned_url rt (BUCKET_NAME rt) (OBJECT_KEY rt) e = Inr url \<longrightarrow>
         snd (lambda_handler rt ev) =
           Inr \<lparr>statusCode = 200,
                headers = [(''Content-Type'', ''text/html''),
                           (''Cache-Control'', ''no-cache, no-store, must-revalidate''),
                           (''Pragma'', ''no-cache''),
                           (''Expires'', ''0'')],
                body = generate_download_page url e (APP_NAME rt) (OBJECT_KEY rt)\<rparr>"
      by blast
    ultimately show ?thesis by blast
  qed
  have only_call: "py_int rt (dict_get (environ rt) ''DOWNLOAD_EXPIRY'' ''3600'') = Inr t"
    if call: "GeneratePresignedUrl b k t \<in> set (fst (lambda_handler rt ev))" for b k t
  proof (cases "DOWNLOAD_EXPIRY rt")
    case (Inl x)
    with call show ?thesis by (simp add: handler_config_error)
  next
    case (Inr expiry)
    from call have "GeneratePresignedUrl b k t \<in> set (fst (try_body rt ev expiry))"
      by (auto simp: handler_fst [OF Inr] except_clauses_no_call split: sum.splits)
    then have "t = expiry"
      using try_body_sign_call by blast
    with Inr show ?thesis by (simp add: DOWNLOAD_EXPIRY_def)
  qed
  have only_page:
    "\<exists>url t. py_int rt (dict_get (environ rt) ''DOWNLOAD_EXPIRY'' ''3600'') = Inr t \<and>
         body resp = generate_download_page url t (APP_NAME rt) (OBJECT_KEY rt)"
    if "snd (lambda_handler rt ev) = Inr resp \<and> statusCode resp = 200" for resp
    using that handler_response_cases [of rt ev resp]
    by (auto simp: DOWNLOAD_EXPIRY_def)
  from used only_call only_page show ?thesis
    by blast
qed

theorem expiry_passed_unchanged_witness:
  "py_int example_negative_expiry
     (dict_get (environ example_negative_expiry) ''DOWNLOAD_EXPIRY'' ''3600'') = Inr (- 1) \<and>
   boto3_client example_negative_expiry = Inr () \<and>
   head_object example_negative_expiry (BUCKET_NAME example_negative_expiry)
     (OBJECT_KEY example_negative_expiry) = Inr () \<and>
   generate_presigned_url example_negative_expiry (BUCKET_NAME example_negative_expiry)
     (OBJECT_KEY example_negative_expiry) (- 1) = Inr ''https://signed/url'' \<and>
   GeneratePresignedUrl ''b'' ''photos/x.zip'' (- 1) \<in>
     set (fst (lambda_handler example_negative_expiry example_event)) \<and>
   snd (lambda_handler example_negative_expiry example_event) =
     Inr \<lparr>statusCode = 200,
          headers = [(''Content-Type'', ''text/html''),
                     (''Cache-Control'', ''no-cache, no-store, must-revalidate''),
                     (''Pragma'', ''no-cache''),
                     (''Expires'', ''0'')],
          body = generate_download_page ''https://signed/url'' (- 1) ''App'' ''photos/x.zip''\<rparr>"
proof -
  have cfg: "BUCKET_NAME example_negative_expiry = ''b''"
    "OBJECT_KEY example_negative_expiry = ''photos/x.zip''"
    "APP_NAME example_negative_expiry = ''App''"
    by (simp_all add: example_negative_expiry_def example_runtime_config)
  have hyps: "py_int example_negative_expiry
       (dict_get (environ example_negative_expiry) ''DOWNLOAD_EXPIRY'' ''3600'') = Inr (- 1) \<and>
     boto3_client example_negative_expiry = Inr () \<and>
     head_object example_negative_expiry (BUCKET_NAME example_negative_expiry)
       (OBJECT_KEY example_negative_expiry) = Inr ()"
    using example_runtime_config(4) [of "''-1''" "Inr ()" "Inr ''https://signed/url''"]
    by (simp add: example_negative_expiry_def example_runtime_calls example_int_examples
          DOWNLOAD_EXPIRY_def)
  have sign: "generate_presigned_url example_negative_expiry
       (BUCKET_NAME example_negative_expiry) (OBJECT_KEY example_negative_expiry) (- 1) =
     Inr ''https://signed/url''"
    by (simp add: example_negative_expiry_def example_runtime_calls)
  from expiry_passed_unchanged [of example_negative_expiry "- 1" example_event] hyps sign
  have "GeneratePresignedUrl (BUCKET_NAME example_negative_expiry)
          (OBJECT_KEY example_negative_expiry) (- 1) \<in>
        set (fst (lambda_handler example_negative_expiry example_event)) \<and>
      snd (lambda_handler example_negative_expiry example_event) =
        Inr \<lparr>statusCode = 200,
             headers = [(''Content-Type'', ''text/html''),
                        (''Cache-Control'', ''no-cache, no-store, must-revalidate''),
                        (''Pragma'', ''no-cache''),
                        (''Expires'', ''0'')],
             body = generate_download_page ''https://signed/url'' (- 1)
                      (APP_NAME example_negative_expiry)
                      (OBJECT_KEY example_negative_expiry)\<rparr>"
    by blast
  with hyps sign show ?thesis
    by (simp only: cfg simp_thms)
qed

text \<open>
  The claim as first stated fails: with \<^verbatim>\<open>DOWNLOAD_EXPIRY=0\<close> the handler signs with a
  time to live of 0 and returns the success page, which announces \<^verbatim>\<open>0 hours\<close>.
\<close>

theorem zero_expiry_passed_through:
  "GeneratePresignedUrl ''b'' ''photos/x.zip'' 0 \<in>
     set (fst (lambda_handler example_zero_expiry example_event)) \<and>
   snd (lambda_handler example_zero_expiry example_event) =
     Inr \<lparr>statusCode = 200,
          headers = [(''Content-Type'', ''text/html''),
                     (''Cache-Control'', ''no-cache, no-store, must-revalidate''),
                     (''Pragma'', ''no-cache''),
                     (''Expires'', ''0'')],
          body = generate_download_page ''https://signed/url'' 0 ''App'' ''photos/x.zip''\<rparr> \<and>
   sublist ''<strong>0 hours</strong>''
     (generate_download_page ''https://signed/url'' 0 ''App'' ''photos/x.zip'')"
proof -
  have "GeneratePresignedUrl ''b'' ''photos/x.zip'' 0 \<in>
     set (fst (lambda_handler example_zero_expiry example_event))"
    by (simp add: example_zero_expiry_def example_effects [OF example_int_examples(3)])
  moreover
  have "sublist ''<strong>0 hours</strong>''
     (generate_download_page ''https://signed/url'' 0 ''App'' ''photos/x.zip'')"
    using download_page_hours [of 0 "''https://signed/url''" "''App''" "''photos/x.zip''"]
    by (simp add: str_int_examples)
  ultimately show ?thesis
    using example_zero_expiry_response [of example_event] by simp
qed

text \<open>
  C6. The signing operation is called only when the probe of the same invocation returned
  without an exception, and then after the probe and once; a response with status 200, the
  only one that embeds a signed link, is returned only in that case; and when the probe
  did not return so, neither the effects nor the response depend on what signing would
  answer.
\<close>

theorem sign_only_after_exists:
  "(GeneratePresignedUrl b k e \<in> set (fst (lambda_handler rt ev)) \<longrightarrow>
      head_object rt (BUCKET_NAME rt) (OBJECT_KEY rt) = Inr () \<and>
      (\<exists>pre post. fst (lambda_handler rt ev) = pre @ GeneratePresignedUrl b k e # post \<and>
         store_calls pre = [HeadObject (BUCKET_NAME rt) (OBJECT_KEY rt)] \<and>
         store_calls post = [])) \<and>
   (snd (lambda_handler rt ev) = Inr resp \<and> statusCode resp = 200 \<longrightarrow>
      head_object rt (BUCKET_NAME rt) (OBJECT_KEY rt) = Inr ()) \<and>
   (head_object rt (BUCKET_NAME rt) (OBJECT_KEY rt) \<noteq> Inr () \<longrightarrow>
      lambda_handler (rt\<lparr>generate_presigned_url := g\<rparr>) ev = lambda_handler rt ev)"
proof -
  have log: "\<not> is_store_call (log_code ev)"
    by (simp add: log_code_def split: option.splits)
  have called: "head_object rt (BUCKET_NAME rt) (OBJECT_KEY rt) = Inr () \<and>
      (\<exists>pre post. fst (lambda_handler rt ev) = pre @ GeneratePresignedUrl b k e # post \<and>
         store_calls pre = [HeadObject (BUCKET_NAME rt) (OBJECT_KEY rt)] \<and>
         store_calls post = [])"
    if call: "GeneratePresignedUrl b k e \<in> set (fst (lambda_handler rt ev))"
  proof (cases "DOWNLOAD_EXPIRY rt")
    case (Inl x)
    with call show ?thesis by (simp add: handler_config_error)
  next
    case (Inr expiry)
    let ?tail = "case snd (try_body rt ev expiry) of
                   Inr resp \<Rightarrow> [] | Inl x \<Rightarrow> fst (except_clauses rt x)"
    have tail: "store_calls ?tail = []" "GeneratePresignedUrl b k e \<notin> set ?tail"
      by (auto simp: except_clauses_no_call store_calls_def [of "[]"] split: sum.splits)
    with call have "GeneratePresignedUrl b k e \<in> set (fst (try_body rt ev expiry))"
      by (auto simp: handler_fst [OF Inr])
    from try_body_sign_call [OF this] obtain post where
      probe: "head_object rt (BUCKET_NAME rt) (OBJECT_KEY rt) = Inr ()" and
      effs: "fst (try_body rt ev expiry) =
               [log_code ev, HeadObject (BUCKET_NAME rt) (OBJECT_KEY rt),
                Print (''Object '' @ OBJECT_KEY rt @ '' exists in bucket '' @ BUCKET_NAME rt)] @
               GeneratePresignedUrl b k e # post" and
      post: "\<forall>x \<in> set post. \<not> is_store_call x"
      by blast
    let ?pre = "[Print (''Event received: '' @ json_dumps rt ev), log_code ev,
                 HeadObject (BUCKET_NAME rt) (OBJECT_KEY rt),
                 Print (''Object '' @ OBJECT_KEY rt @ '' exists in bucket '' @ BUCKET_NAME rt)]"
    have "fst (lambda_handler rt ev) = ?pre @ GeneratePresignedUrl b k e # (post @ ?tail)"
      by (simp add: handler_fst [OF Inr] effs)
    moreover have "store_calls ?pre = [HeadObject (BUCKET_NAME rt) (OBJECT_KEY rt)]"
      by (simp add: store_calls_def log)
    moreover from post have "store_calls (post @ ?tail) = []"
      using tail(1) by (simp add: store_calls_def)
    ultimately show ?thesis using probe by blast
  qed
  have embedded: "head_object rt (BUCKET_NAME rt) (OBJECT_KEY rt) = Inr ()"
    if "snd (lambda_handler rt ev) = Inr resp \<and> statusCode resp = 200"
    using that handler_response_cases [of rt ev resp] by auto
  have independent:
    "lambda_handler (rt\<lparr>generate_presigned_url := g\<rparr>) ev = lambda_handler rt ev"
    if "head_object rt (BUCKET_NAME rt) (OBJECT_KEY rt) \<noteq> Inr ()"
  proof -
    from that
    have "try_body (rt\<lparr>generate_presigned_url := g\<rparr>) ev x = try_body rt ev x" for x
      by (rule try_body_probe_first)
    moreover
    have "except_clauses (rt\<lparr>generate_presigned_url := g\<rparr>) x = except_clauses rt x" for x
      by (cases x) (simp_all add: except_clauses_def config_other_sign)
    ultimately show ?thesis
      by (simp add: lambda_handler_def config_other_sign split: sum.splits prod.splits)
  qed
  from called embedded independent show ?thesis
    by blast
qed

theorem sign_only_after_exists_witness:
  "GeneratePresignedUrl ''b'' ''photos/x.zip'' 3600 \<in>
     set (fst (lambda_handler example_success example_event)) \<and>
   head_object example_success (BUCKET_NAME example_success) (OBJECT_KEY example_success) =
     Inr () \<and>
   head_object example_missing (BUCKET_NAME example_missing) (OBJECT_KEY example_missing) \<noteq>
     Inr () \<and>
   lambda_handler (example_missing\<lparr>generate_presigned_url := generate_presigned_url example_denied\<rparr>)
     example_event = lambda_handler example_missing example_event"
proof -
  have call: "GeneratePresignedUrl ''b'' ''photos/x.zip'' 3600 \<in>
     set (fst (lambda_handler example_success example_event))"
    by (simp add: example_success_def example_effects [OF example_int_examples(1)])
  have missing: "head_object example_missing (BUCKET_NAME example_missing)
     (OBJECT_KEY example_missing) \<noteq> Inr ()"
    by (simp add: example_missing_def example_runtime_calls)
  from call
    sign_only_after_exists [of "''b''" "''photos/x.zip''" 3600 example_success example_event]
  have "head_object example_success (BUCKET_NAME example_success)
          (OBJECT_KEY example_success) = Inr ()"
    by blast
  moreover from missing sign_only_after_exists [of _ _ _ example_missing example_event]
  have "lambda_handler
          (example_missing\<lparr>generate_presigned_url := generate_presigned_url example_denied\<rparr>)
          example_event = lambda_handler example_missing example_event"
    by blast
  ultimately show ?thesis using call missing by blast
qed

text \<open>
  C7. The file name shown on the success page is the part of the object key after its
  last \<^verbatim>\<open>/\<close> when the key contains one, and the key itself when it contains none.
\<close>

theorem file_name_last_segment:
  \<open>(CHR ''/'' \<in> set object_key \<longrightarrow>
      (\<exists>pre. object_key = pre @ ''/'' @ file_name object_key) \<and>
      CHR ''/'' \<notin> set (file_name object_key)) \<and>
    (CHR ''/'' \<notin> set object_key \<longrightarrow> file_name object_key = object_key) \<and>
    sublist ('' File:</strong> '' @ file_name object_key @ ''\<newline>'')
      (generate_download_page download_url expiry_seconds app_name object_key)\<close>
proof -
  have "\<exists>pre. object_key = pre @ ''/'' @ file_name object_key"
    if "CHR ''/'' \<in> set object_key"
    using that last_split_py_suffix [of "CHR ''/''" object_key]
    by (simp add: file_name_def)
  moreover have "CHR ''/'' \<notin> set (file_name object_key)"
    unfolding file_name_def by (rule last_split_py_no_sep)
  moreover have "file_name object_key = object_key" if "CHR ''/'' \<notin> set object_key"
    using that by (simp add: file_name_def split_py_no_sep)
  ultimately show ?thesis
    using download_page_file [of object_key download_url expiry_seconds app_name]
    by blast
qed

theorem file_name_last_segment_witness:
  \<open>CHR ''/'' \<in> set ''photos/x.zip'' \<and>
   ''photos/x.zip'' = ''photos'' @ ''/'' @ file_name ''photos/x.zip'' \<and>
   CHR ''/'' \<notin> set (file_name ''photos/x.zip'') \<and>
   CHR ''/'' \<notin> set ''photos.zip'' \<and>
   file_name ''photos.zip'' = ''photos.zip'' \<and>
   sublist '' File:</strong> x.zip''
     (generate_download_page ''https://signed/url'' 3600 ''App'' ''photos/x.zip'')\<close>
proof -
  have slash: "CHR ''/'' \<in> set ''photos/x.zip''" and none: "CHR ''/'' \<notin> set ''photos.zip''"
    by simp_all
  from file_name_last_segment [of "''photos/x.zip''" "''https://signed/url''" 3600 "''App''"]
    slash
  have "CHR ''/'' \<notin> set (file_name ''photos/x.zip'')"
    and page: \<open>sublist ('' File:</strong> '' @ file_name ''photos/x.zip'' @ ''\<newline>'')
      (generate_download_page ''https://signed/url'' 3600 ''App'' ''photos/x.zip'')\<close>
    by blast+
  moreover
  from file_name_last_segment [of "''photos.zip''" "''u''" 0 "''a''"] none
  have "file_name ''photos.zip'' = ''photos.zip''"
    by blast
  moreover
  have \<open>sublist '' File:</strong> x.zip''
     (generate_download_page ''https://signed/url'' 3600 ''App'' ''photos/x.zip'')\<close>
  proof -
    have \<open>sublist '' File:</strong> x.zip'' ('' File:</strong> '' @ ''x.zip'' @ ''\<newline>'')\<close>
      by (simp add: prefix_imp_sublist)
    moreover note page [unfolded file_name_example]
    ultimately show ?thesis
      by (rule sublist_order.order.trans)
  qed
  ultimately show ?thesis
    using slash none by (simp add: file_name_example)
qed

text \<open>
  C8. The success page shows \<^verbatim>\<open>expiry_seconds // 3600\<close> as the number of hours, followed by
  \<^verbatim>\<open>hour\<close>, with an \<^verbatim>\<open>s\<close> exactly when that number is not 1: 3600 seconds give
  \<^verbatim>\<open>1 hour\<close>, 7200 seconds give \<^verbatim>\<open>2 hours\<close>.
\<close>

theorem hours_displayed:
  \<open>sublist (''<strong>'' @ str_int (expiry_seconds div 3600) @ '' hour'' @
             (if expiry_seconds div 3600 = 1 then '''' else ''s'') @ ''</strong>'')
      (generate_download_page download_url expiry_seconds app_name object_key) \<and>
    sublist ''<strong>1 hour</strong>''
      (generate_download_page download_url 3600 app_name object_key) \<and>
    sublist ''<strong>2 hours</strong>''
      (generate_download_page download_url 7200 app_name object_key)\<close>
proof -
  have "sublist (''<strong>'' @ str_int (e div 3600) @ '' hour'' @
             (if e div 3600 = 1 then '''' else ''s'') @ ''</strong>'')
      (generate_download_page download_url e app_name object_key)" for e
    using download_page_hours [of e download_url app_name object_key]
    by (simp split: if_splits)
  from this [of expiry_seconds] this [of 3600] this [of 7200] show ?thesis
    by (simp add: str_int_examples)
qed

text \<open>
  C9. The response does not depend on the event: two invocations with the same
  configuration and the same answers of the store return the same response and make the
  same calls to the store, whatever their query parameters hold. Only printed lines can
  differ.
\<close>

theorem response_independent_of_event:
  "snd (lambda_handler rt ev) = snd (lambda_handler rt ev') \<and>
   store_calls (fst (lambda_handler rt ev)) = store_calls (fst (lambda_handler rt ev'))"
proof (cases "DOWNLOAD_EXPIRY rt")
  case (Inl e)
  then show ?thesis
    by (simp add: handler_config_error store_calls_def)
next
  case (Inr expiry)
  from try_body_event [of rt ev expiry ev'] show ?thesis
    by (simp add: handler_snd [OF Inr] handler_fst [OF Inr] store_calls_def)
qed

text \<open>
  What the code does change is the line printed about it: with a code, its first ten
  characters; without one, the remark that there is none.
\<close>

lemma code_changes_printed_line:
  "log_code example_event = Print ''Authorization code received: abc123...'' \<and>
   log_code no_code_event = Print ''No authorization code - might be direct access'' \<and>
   fst (lambda_handler example_success example_event) \<noteq>
   fst (lambda_handler example_success no_code_event)"
  by (simp add: log_code_examples example_success_def
        example_effects [OF example_int_examples(1)])

text \<open>
  C10. A \<^verbatim>\<open>ClientError\<close> of the probe with code \<open>c\<close> gives the 404 response exactly when
  \<open>c\<close> is the string \<^verbatim>\<open>404\<close>; with any other code, \<^verbatim>\<open>NoSuchKey\<close> among them, it is raised
  again and gives the 500 response with the title \<^verbatim>\<open>AWS Error: \<close>\<open>c\<close>.
\<close>

theorem probe_error_classification:
  assumes "DOWNLOAD_EXPIRY rt = Inr expiry" and "boto3_client rt = Inr ()"
    and "head_object rt (BUCKET_NAME rt) (OBJECT_KEY rt) =
         Inl (ClientError (Some (ErrorInfo (Some c) m)) s)"
  shows "\<exists>resp. snd (lambda_handler rt ev) = Inr resp \<and>
           (statusCode resp = 404) = (c = ''404'') \<and>
           (statusCode resp = 500) = (c \<noteq> ''404'') \<and>
           body resp =
             (if c = ''404''
              then generate_error_page ''File Not Found''
                     (''The requested file '' @ [CHR 0x27] @ OBJECT_KEY rt @ [CHR 0x27] @
                      '' was not found. Please contact support.'')
                     (APP_NAME rt)
              else generate_error_page (''AWS Error: '' @ c)
                     (case m of None \<Rightarrow> s | Some msg \<Rightarrow> msg) (APP_NAME rt))"
proof (cases "c = ''404''")
  case True
  with handler_not_found [OF assms(1,2), of m s ev] assms(3) show ?thesis
    by simp
next
  case False
  with handler_probe_fault [OF assms, of ev] show ?thesis
    by simp
qed

theorem probe_error_classification_witness:
  "DOWNLOAD_EXPIRY example_no_such_key = Inr 3600 \<and>
   boto3_client example_no_such_key = Inr () \<and>
   head_object example_no_such_key (BUCKET_NAME example_no_such_key)
     (OBJECT_KEY example_no_such_key) =
     Inl (ClientError
            (Some (ErrorInfo (Some ''NoSuchKey'') (Some ''The specified key does not exist.'')))
            ''An error occurred (NoSuchKey): The specified key does not exist.'') \<and>
   (\<exists>resp. snd (lambda_handler example_no_such_key example_event) = Inr resp \<and>
      statusCode resp = 500 \<and>
      body resp = generate_error_page ''AWS Error: NoSuchKey''
                    ''The specified key does not exist.'' ''App'')"
proof -
  have hyps: "DOWNLOAD_EXPIRY example_no_such_key = Inr 3600"
    "boto3_client example_no_such_key = Inr ()"
    "head_object example_no_such_key (BUCKET_NAME example_no_such_key)
       (OBJECT_KEY example_no_such_key) =
     Inl (ClientError
            (Some (ErrorInfo (Some ''NoSuchKey'') (Some ''The specified key does not exist.'')))
            ''An error occurred (NoSuchKey): The specified key does not exist.'')"
    by (simp_all add: example_no_such_key_def example_runtime_config example_runtime_calls
          example_int_examples client_error_def)
  from probe_error_classification [OF hyps, of example_event] hyps show ?thesis
    by (auto simp: example_no_such_key_def example_runtime_config)
qed

end
